theory Spec2Isabelle
  imports Main "HOL-Library.Sublist"
begin

section \<open>Python values used by create\_offline\_installer.py\<close>

text \<open>
  Strings are lists of 8-bit characters, read as the code points U+0000 to U+00FF. In that
  range the only characters of Unicode category Nd, which the regular expression class
  \<^verbatim>\<open>\d\<close> matches, are the ASCII digits.
\<close>

datatype error =
    AttributeError
  | KeyError string
  | IndexError
  | ValueError
  | TypeError
  | RuntimeError string
  | FileExistsError string
  | FileNotFoundError string
  | NotADirectoryError string
  | IsADirectoryError string
  | OSError string
  | WindowsError string
  | RequestException string

definition newline :: char where
  "newline = CHR 0x0A"

definition backslash :: char where
  "backslash = CHR 0x5C"

definition is_digit :: "char \<Rightarrow> bool" where
  "is_digit c = (c \<in> set ''0123456789'')"

definition digit_val :: "char \<Rightarrow> nat" where
  "digit_val c = of_char c - 48"

text \<open>\<^verbatim>\<open>sep.join(xs)\<close>\<close>

fun join :: "string \<Rightarrow> string list \<Rightarrow> string" where
  "join sep [] = []"
| "join sep [x] = x"
| "join sep (x # y # ys) = x @ sep @ join sep (y # ys)"

text \<open>\<^verbatim>\<open>s.split(c)\<close> for a separator of one character: never the empty list.\<close>

fun split_on :: "char \<Rightarrow> string \<Rightarrow> string list" where
  "split_on c [] = [[]]"
| "split_on c (x # xs) =
     (if x = c then [] # split_on c xs
      else (case split_on c xs of
              [] \<Rightarrow> [[x]]
            | w # ws \<Rightarrow> (x # w) # ws))"

text \<open>
  \<^verbatim>\<open>s.replace(old, new)\<close>: every occurrence of \<open>old\<close>, found from the left and not
  overlapping, becomes \<open>new\<close>. With an empty \<open>old\<close> Python puts \<open>new\<close> before every
  character and at the end.
\<close>

function replace :: "string \<Rightarrow> string \<Rightarrow> string \<Rightarrow> string" where
  "replace s old new =
     (if old = [] then new @ concat (map (\<lambda>c. c # new) s)
      else if s = [] then []
      else if prefix old s then new @ replace (drop (length old) s) old new
      else hd s # replace (tl s) old new)"
  by pat_completeness auto
termination
  by (relation "measure (\<lambda>(s, old, new). length s)") (auto simp: prefix_def)

declare replace.simps [simp del]

text \<open>
  \<^verbatim>\<open>template.format(*args)\<close> for the replacement fields the program uses: \<^verbatim>\<open>{0}\<close> to
  \<^verbatim>\<open>{9}\<close>, with the escapes \<^verbatim>\<open>{{\<close> and \<^verbatim>\<open>}}\<close>. Any other brace is the ValueError
  branch (named fields and format specifications do not occur in the program).
\<close>

fun py_format :: "string \<Rightarrow> string list \<Rightarrow> error + string" where
  "py_format [] args = Inr []"
| "py_format [c] args = (if c = CHR ''{'' \<or> c = CHR ''}'' then Inl ValueError else Inr [c])"
| "py_format [c, d] args =
     (if c = CHR ''{'' \<and> d = CHR ''{'' then Inr ''{''
      else if c = CHR ''}'' \<and> d = CHR ''}'' then Inr ''}''
      else if c = CHR ''{'' \<or> c = CHR ''}'' then Inl ValueError
      else map_sum id ((#) c) (py_format [d] args))"
| "py_format (c # d # e # rest) args =
     (if c = CHR ''{'' \<and> d = CHR ''{'' then map_sum id ((#) c) (py_format (e # rest) args)
      else if c = CHR ''}'' \<and> d = CHR ''}'' then map_sum id ((#) c) (py_format (e # rest) args)
      else if c = CHR ''{'' \<and> is_digit d \<and> e = CHR ''}'' then
        (if digit_val d < length args
         then map_sum id ((@) (args ! digit_val d)) (py_format rest args)
         else Inl IndexError)
      else if c = CHR ''{'' \<or> c = CHR ''}'' then Inl ValueError
      else map_sum id ((#) c) (py_format (d # e # rest) args))"

text \<open>
  \<^verbatim>\<open>template % args\<close> with the conversion \<^verbatim>\<open>%s\<close> only (and the escape \<^verbatim>\<open>%%\<close>); too
  few or too many arguments raise TypeError.
\<close>

fun py_percent :: "string \<Rightarrow> string list \<Rightarrow> error + string" where
  "py_percent [] args = (if args = [] then Inr [] else Inl TypeError)"
| "py_percent [c] args =
     (if c = CHR ''%'' then Inl ValueError
      else if args = [] then Inr [c] else Inl TypeError)"
| "py_percent (c # d # rest) args =
     (if c = CHR ''%'' \<and> d = CHR ''s'' then
        (case args of
           [] \<Rightarrow> Inl TypeError
         | a # as \<Rightarrow> map_sum id ((@) a) (py_percent rest as))
      else if c = CHR ''%'' \<and> d = CHR ''%'' then map_sum id ((#) c) (py_percent rest args)
      else if c = CHR ''%'' then Inl ValueError
      else map_sum id ((#) c) (py_percent (d # rest) args))"

text \<open>\<^verbatim>\<open>d[k]\<close> on a dictionary literal: a missing key raises KeyError.\<close>

definition dict_get :: "(string \<times> 'v) list \<Rightarrow> string \<Rightarrow> error + 'v" where
  "dict_get d k = (case map_of d k of None \<Rightarrow> Inl (KeyError k) | Some v \<Rightarrow> Inr v)"

text \<open>\<^verbatim>\<open>d[k] = v\<close>: an existing key keeps its place, a new key goes last.\<close>

fun dict_set :: "(string \<times> 'v) list \<Rightarrow> string \<Rightarrow> 'v \<Rightarrow> (string \<times> 'v) list" where
  "dict_set [] k v = [(k, v)]"
| "dict_set ((k', v') # d) k v = (if k' = k then (k, v) # d else (k', v') # dict_set d k v)"

definition bind_sum :: "error + 'a \<Rightarrow> ('a \<Rightarrow> error + 'b) \<Rightarrow> error + 'b" where
  "bind_sum r f = (case r of Inl e \<Rightarrow> Inl e | Inr x \<Rightarrow> f x)"


section \<open>The regular expression of package\_name\<close>

text \<open>
  \<^verbatim>\<open>re.match(r"(.*)-\d.*", s)\<close> anchors at the start of \<open>s\<close>. The group \<^verbatim>\<open>(.*)\<close> is greedy:
  it first takes the longest run of characters other than a newline, and gives characters
  back one at a time until the rest of the pattern matches where it stopped: a hyphen, then
  a digit (the final \<^verbatim>\<open>.*\<close> also matches the empty string, so it asks nothing more).
\<close>

definition re_dot :: "char \<Rightarrow> bool" where
  "re_dot c = (c \<noteq> newline)"

definition hyphen_digit :: "string \<Rightarrow> bool" where
  "hyphen_digit s = (case s of c # d # _ \<Rightarrow> c = CHR ''-'' \<and> is_digit d | _ \<Rightarrow> False)"

definition re_match_group1 :: "string \<Rightarrow> string option" where
  "re_match_group1 s =
     (let n = length (takeWhile re_dot s)
      in map_option (\<lambda>i. take i s) (find (\<lambda>i. hyphen_digit (drop i s)) (rev [0..<Suc n])))"

text \<open>\<^verbatim>\<open>re.match(...).group(1)\<close>: no match is \<^verbatim>\<open>None\<close>, and \<^verbatim>\<open>None.group\<close> raises.\<close>

definition package_name :: "string \<Rightarrow> error + string" where
  "package_name package_filename =
     (case re_match_group1 package_filename of
        None \<Rightarrow> Inl AttributeError
      | Some g \<Rightarrow> Inr g)"

text \<open>The conda archive naming scheme the docstring of package\_name speaks of.\<close>

definition conda_filename :: "string \<Rightarrow> string \<Rightarrow> string \<Rightarrow> string \<Rightarrow> string" where
  "conda_filename name vers build ext = name @ ''-'' @ vers @ ''-'' @ build @ ''.'' @ ext"


section \<open>AnacondaMixin: the installer name\<close>

text \<open>
  The attributes of the object that the methods read. \<open>system\<close> is \<^verbatim>\<open>platform.system()\<close>,
  \<open>sys_platform\<close> is \<^verbatim>\<open>sys.platform\<close>.
\<close>

record installer =
  distribution :: string
  conda_python_version :: string
  version :: string
  ccdc_version :: string
  bitness :: string
  system :: string
  sys_platform :: string
  output_installer :: "string list"
  conda_bz2_src_packages :: "string list"
  conda_conda_src_packages :: "string list"

definition extensions :: "(string \<times> string) list" where
  "extensions = [(''Windows'', ''exe''), (''Linux'', ''sh''), (''Darwin'', ''sh'')]"

definition platforms :: "(string \<times> string) list" where
  "platforms = [(''Windows'', ''Windows''), (''Linux'', ''Linux''), (''Darwin'', ''MacOSX'')]"

definition architectures :: "(string \<times> string) list" where
  "architectures = [(''64bit'', ''x86_64'')]"

definition installer_name :: "installer \<Rightarrow> error + string" where
  "installer_name self =
     bind_sum (dict_get platforms (system self)) (\<lambda>p.
     bind_sum (dict_get architectures (bitness self)) (\<lambda>a.
     bind_sum (dict_get extensions (system self)) (\<lambda>e.
       py_format ''{0}{1}-{2}-{3}-{4}.{5}''
         [distribution self, conda_python_version self, version self, p, a, e])))"




section \<open>The file system\<close>

text \<open>
  The program names every file relative to its working directory. A path is its list of
  components (\<^verbatim>\<open>os.path.join\<close> appends components, \<^verbatim>\<open>os.path.split\<close> takes the last one
  off), and the working directory is a tree. A directory lists its entries in the order
  \<^verbatim>\<open>os.listdir\<close> gives them. Permission bits are not part of the tree.
\<close>

type_synonym path = "string list"

datatype node = File string | Dir "(string \<times> node) list"

fun lookup :: "node \<Rightarrow> path \<Rightarrow> node option"
  and lookup_in :: "(string \<times> node) list \<Rightarrow> string \<Rightarrow> path \<Rightarrow> node option" where
  "lookup n [] = Some n"
| "lookup (File s) (c # cs) = None"
| "lookup (Dir es) (c # cs) = lookup_in es c cs"
| "lookup_in [] c cs = None"
| "lookup_in ((k, m) # es) c cs = (if k = c then lookup m cs else lookup_in es c cs)"

text \<open>\<open>put p v\<close> makes \<open>v\<close> the node at \<open>p\<close> when the parent of \<open>p\<close> is a directory.\<close>

fun put :: "path \<Rightarrow> node \<Rightarrow> node \<Rightarrow> node"
  and put_in :: "string \<Rightarrow> path \<Rightarrow> node \<Rightarrow> (string \<times> node) list \<Rightarrow> (string \<times> node) list" where
  "put [] v n = v"
| "put (c # cs) v (File s) = File s"
| "put (c # cs) v (Dir es) = Dir (put_in c cs v es)"
| "put_in c cs v [] = (if cs = [] then [(c, v)] else [])"
| "put_in c cs v ((k, m) # es) =
     (if k = c then (k, put cs v m) # es else (k, m) # put_in c cs v es)"

text \<open>\<open>remove p\<close> takes the node at \<open>p\<close>, with everything below it, out of the tree.\<close>

fun remove :: "path \<Rightarrow> node \<Rightarrow> node"
  and remove_in :: "string \<Rightarrow> path \<Rightarrow> (string \<times> node) list \<Rightarrow> (string \<times> node) list" where
  "remove [] n = n"
| "remove (c # cs) (File s) = File s"
| "remove (c # cs) (Dir es) = Dir (remove_in c cs es)"
| "remove_in c cs [] = []"
| "remove_in c cs ((k, m) # es) =
     (if k = c then (if cs = [] then remove_in c cs es else (k, remove cs m) # es)
      else (k, m) # remove_in c cs es)"

definition path_str :: "char \<Rightarrow> path \<Rightarrow> string" where
  "path_str sep p = join [sep] p"

text \<open>\<^verbatim>\<open>os.mkdir\<close>\<close>

definition mkdir :: "path \<Rightarrow> node \<Rightarrow> error + node" where
  "mkdir p t =
     (if p = [] \<or> lookup t p \<noteq> None then Inl (FileExistsError (path_str CHR ''/'' p))
      else (case lookup t (butlast p) of
              None \<Rightarrow> Inl (FileNotFoundError (path_str CHR ''/'' p))
            | Some (File s) \<Rightarrow> Inl (NotADirectoryError (path_str CHR ''/'' p))
            | Some (Dir es) \<Rightarrow> Inr (put p (Dir []) t)))"

text \<open>
  \<^verbatim>\<open>os.makedirs(name)\<close> with \<^verbatim>\<open>exist_ok=False\<close>: a missing parent is made first, by the
  same function, and a FileExistsError from there is passed over; then the leaf is made,
  and \<^verbatim>\<open>os.mkdir\<close> raises when it exists.
\<close>

function makedirs :: "path \<Rightarrow> node \<Rightarrow> error + node" where
  "makedirs p t =
     (if p = [] then Inl (FileExistsError [])
      else (case (if butlast p \<noteq> [] \<and> lookup t (butlast p) = None
                  then (case makedirs (butlast p) t of
                          Inl (FileExistsError x) \<Rightarrow> Inr t
                        | r \<Rightarrow> r)
                  else Inr t) of
              Inl e \<Rightarrow> Inl e
            | Inr t1 \<Rightarrow> mkdir p t1))"
  by pat_completeness auto
termination
  by (relation "measure (\<lambda>(p, t). length p)") auto

declare makedirs.simps [simp del]

text \<open>\<^verbatim>\<open>open(p, "w")\<close> followed by one \<^verbatim>\<open>write\<close> of the whole content.\<close>

definition write_file :: "path \<Rightarrow> string \<Rightarrow> node \<Rightarrow> error + node" where
  "write_file p content t =
     (if p = [] then Inl (IsADirectoryError [])
      else (case lookup t (butlast p) of
              None \<Rightarrow> Inl (FileNotFoundError (path_str CHR ''/'' p))
            | Some (File s) \<Rightarrow> Inl (NotADirectoryError (path_str CHR ''/'' p))
            | Some (Dir es) \<Rightarrow>
                (case lookup t p of
                   Some (Dir es') \<Rightarrow> Inl (IsADirectoryError (path_str CHR ''/'' p))
                 | _ \<Rightarrow> Inr (put p (File content) t))))"

text \<open>\<^verbatim>\<open>shutil.copyfile(src, dst)\<close>: the content only.\<close>

definition copyfile :: "path \<Rightarrow> path \<Rightarrow> node \<Rightarrow> error + node" where
  "copyfile src dst t =
     (case lookup t src of
        None \<Rightarrow> Inl (FileNotFoundError (path_str CHR ''/'' src))
      | Some (Dir es) \<Rightarrow> Inl (IsADirectoryError (path_str CHR ''/'' src))
      | Some (File content) \<Rightarrow> write_file dst content t)"

text \<open>
  \<^verbatim>\<open>str.lower\<close> on one character of U+0000 to U+00FF, and \<^verbatim>\<open>os.path.normcase\<close>: the identity
  on POSIX; on Windows every slash becomes a backslash and every letter lower case.
\<close>

definition py_lower :: "char \<Rightarrow> char" where
  "py_lower c =
     (let n = (of_char c :: nat)
      in if (65 \<le> n \<and> n \<le> 90) \<or> (192 \<le> n \<and> n \<le> 222 \<and> n \<noteq> 215) then char_of (n + 32) else c)"

definition normcase :: "bool \<Rightarrow> string \<Rightarrow> string" where
  "normcase windows s =
     (if windows then map (\<lambda>c. py_lower (if c = CHR ''/'' then backslash else c)) s else s)"

text \<open>
  \<^verbatim>\<open>fnmatch\<close> for patterns of literal characters, \<^verbatim>\<open>*\<close> and \<^verbatim>\<open>?\<close> (the program's patterns
  have no character class).
\<close>

fun fnmatchcase :: "string \<Rightarrow> string \<Rightarrow> bool" where
  "fnmatchcase [] [] = True"
| "fnmatchcase (c # cs) [] = False"
| "fnmatchcase [] (p # ps) = (p = CHR ''*'' \<and> fnmatchcase [] ps)"
| "fnmatchcase (c # cs) (p # ps) =
     (if p = CHR ''*'' then fnmatchcase (c # cs) ps \<or> fnmatchcase cs (p # ps)
      else if p = CHR ''?'' then fnmatchcase cs ps
      else c = p \<and> fnmatchcase cs ps)"

text \<open>
  \<^verbatim>\<open>glob.glob\<close> of a path whose last component is the only one with a wildcard: the entries
  of the directory that match, in listing order; names that start with a dot are hidden
  from a pattern that does not; name and pattern go through \<^verbatim>\<open>normcase\<close>.
\<close>

definition ishidden :: "string \<Rightarrow> bool" where
  "ishidden n = (n \<noteq> [] \<and> hd n = CHR ''.'')"

definition glob :: "bool \<Rightarrow> path \<Rightarrow> node \<Rightarrow> path list" where
  "glob windows p t =
     (if p = [] then []
      else (case lookup t (butlast p) of
              Some (Dir es) \<Rightarrow>
                map (\<lambda>n. butlast p @ [n])
                  (filter (\<lambda>n. (ishidden (last p) \<or> \<not> ishidden n) \<and>
                                fnmatchcase (normcase windows n) (normcase windows (last p)))
                     (map fst es))
            | _ \<Rightarrow> []))"


section \<open>The machine, the host and the output\<close>

text \<open>
  The Windows registry: a key that exists holds named values, each a datum with its type
  code. Only string data can be split; every other datum is \<open>RegOther\<close>.
\<close>

datatype hive = HKEY_CURRENT_USER | HKEY_LOCAL_MACHINE

datatype reg_data = RegStr string | RegOther

type_synonym reg_value = "reg_data \<times> nat"

type_synonym registry = "hive \<times> string \<Rightarrow> (string \<Rightarrow> reg_value option) option"

definition REG_EXPAND_SZ :: nat where
  "REG_EXPAND_SZ = 2"

record machine =
  fs :: node
  reg :: registry

text \<open>What the run prints and which external programs and servers it calls, in order.\<close>

datatype event =
    Print string
  | PrintArgs "string list"
  | PrintEnv "(string \<times> string) list"
  | Call "string list" "(string \<times> string) list"
  | HttpGet string
  | Broadcast

record world =
  mach :: machine
  out :: "event list"

datatype proc_result = Exited int | SpawnFailed error

text \<open>
  Everything the program takes from outside itself: the environment, the directories of the
  process, and the behaviour of the child processes, of the web server, of the operating
  system and of the library functions that are not modelled here. A child process may
  change the file system and the registry, never what the run has printed.
\<close>

record host =
  environ :: "(string \<times> string) list"
  cwd :: string
  script_dir :: string
  expanduser :: "string \<Rightarrow> string"
  exists_abs :: "string \<Rightarrow> bool"
  http_get :: "string \<Rightarrow> error + string"
  spawn :: "string list \<Rightarrow> (string \<times> string) list \<Rightarrow> machine \<Rightarrow> proc_result \<times> machine"
  rmtree_fault :: "path \<Rightarrow> (string \<times> node) list \<Rightarrow> (string \<times> node) list option"
  repr_list :: "string list \<Rightarrow> string"
  normpath :: "string \<Rightarrow> string"
  expand_env :: "string \<Rightarrow> string"

type_synonym 'a io = "world \<Rightarrow> (error + 'a) \<times> world"

definition return_io :: "'a \<Rightarrow> 'a io" where
  "return_io x w = (Inr x, w)"

definition raise_io :: "error \<Rightarrow> 'a io" where
  "raise_io e w = (Inl e, w)"

definition lift_io :: "error + 'a \<Rightarrow> 'a io" where
  "lift_io r w = (r, w)"

definition bind_io :: "'a io \<Rightarrow> ('a \<Rightarrow> 'b io) \<Rightarrow> 'b io" where
  "bind_io m f w = (case m w of (Inl e, w') \<Rightarrow> (Inl e, w') | (Inr x, w') \<Rightarrow> f x w')"

definition then_io :: "'a io \<Rightarrow> 'b io \<Rightarrow> 'b io" where
  "then_io m k = bind_io m (\<lambda>x. k)"

text \<open>\<^verbatim>\<open>try: m  except: pass\<close>\<close>

definition try_pass :: "'a io \<Rightarrow> unit io" where
  "try_pass m w = (Inr (), snd (m w))"

fun seq_io :: "unit io list \<Rightarrow> unit io" where
  "seq_io [] = return_io ()"
| "seq_io (m # ms) = then_io m (seq_io ms)"

definition emit :: "event \<Rightarrow> unit io" where
  "emit e w = (Inr (), w\<lparr>out := out w @ [e]\<rparr>)"

definition print :: "string \<Rightarrow> unit io" where
  "print s = emit (Print s)"

definition set_fs :: "node \<Rightarrow> world \<Rightarrow> world" where
  "set_fs t w = w\<lparr>mach := (mach w)\<lparr>fs := t\<rparr>\<rparr>"

definition fs_op :: "(node \<Rightarrow> error + node) \<Rightarrow> unit io" where
  "fs_op f w = (case f (fs (mach w)) of Inl e \<Rightarrow> (Inl e, w) | Inr t \<Rightarrow> (Inr (), set_fs t w))"

text \<open>
  \<^verbatim>\<open>subprocess.call(args, env=env)\<close>: the exit code of the child, or the exception of a
  child that could not be started.
\<close>

definition call :: "host \<Rightarrow> string list \<Rightarrow> (string \<times> string) list \<Rightarrow> int io" where
  "call h args env w =
     (case spawn h args env (mach w) of
        (Exited c, m) \<Rightarrow> (Inr c, w\<lparr>mach := m, out := out w @ [Call args env]\<rparr>)
      | (SpawnFailed e, m) \<Rightarrow> (Inl e, w\<lparr>mach := m, out := out w @ [Call args env]\<rparr>))"

text \<open>
  \<^verbatim>\<open>shutil.rmtree(p)\<close>: raises when \<open>p\<close> is not a directory; when the removal fails on the
  way, what is left stays under \<open>p\<close>, which is still a directory.
\<close>

definition rmtree :: "host \<Rightarrow> path \<Rightarrow> unit io" where
  "rmtree h p w =
     (case lookup (fs (mach w)) p of
        None \<Rightarrow> (Inl (FileNotFoundError (path_str CHR ''/'' p)), w)
      | Some (File s) \<Rightarrow> (Inl (NotADirectoryError (path_str CHR ''/'' p)), w)
      | Some (Dir es) \<Rightarrow>
          (case rmtree_fault h p es of
             None \<Rightarrow> (Inr (), set_fs (remove p (fs (mach w))) w)
           | Some residue \<Rightarrow>
               (Inl (OSError (path_str CHR ''/'' p)), set_fs (put p (Dir residue) (fs (mach w))) w)))"

text \<open>\<^verbatim>\<open>os.chmod\<close>: the file has to exist.\<close>

definition chmod :: "path \<Rightarrow> unit io" where
  "chmod p = fs_op (\<lambda>t. if lookup t p = None then Inl (FileNotFoundError (path_str CHR ''/'' p)) else Inr t)"


section \<open>PATH clean-up in the registry (Windows)\<close>

definition sz_expand :: "host \<Rightarrow> string \<Rightarrow> nat \<Rightarrow> string" where
  "sz_expand h v value_type = (if value_type = REG_EXPAND_SZ then expand_env h v else v)"

text \<open>
  The loop over the entries of the value, with its two variables \<open>any_change\<close> and
  \<open>results\<close>.
\<close>

fun scan_entries :: "host \<Rightarrow> string \<Rightarrow> nat \<Rightarrow> string list \<Rightarrow> bool \<times> string list \<Rightarrow> bool \<times> string list" where
  "scan_entries h pathname ty [] acc = acc"
| "scan_entries h pathname ty (v # vs) (any_change, results) =
     (if normcase True (normpath h (sz_expand h v ty)) = pathname
      then scan_entries h pathname ty vs (True, results)
      else scan_entries h pathname ty vs (any_change, results @ [v]))"

text \<open>
  One turn of the loop over the keys. A key that cannot be opened raises to the caller; a
  missing value is skipped; an exception while the value is processed (a datum that is not
  a string) is caught and the value is left as it is.
\<close>

definition clean_key :: "host \<Rightarrow> string \<Rightarrow> string \<Rightarrow> hive \<times> string \<Rightarrow> unit io" where
  "clean_key h pathname path_env_var k w =
     (case reg (mach w) k of
        None \<Rightarrow> (Inl (WindowsError (snd k)), w)
      | Some vals \<Rightarrow>
          (case vals path_env_var of
             None \<Rightarrow> (Inr (), w)
           | Some (RegOther, ty) \<Rightarrow> (Inr (), w)
           | Some (RegStr s, ty) \<Rightarrow>
               (case scan_entries h pathname ty (split_on CHR '';'' s) (False, []) of
                  (any_change, results) \<Rightarrow>
                    (if any_change
                     then (Inr (),
                           w\<lparr>mach := (mach w)\<lparr>reg := (reg (mach w))
                               (k := Some (vals(path_env_var := Some (RegStr (join '';'' results), ty))))\<rparr>\<rparr>)
                     else (Inr (), w)))))"

definition envkeys :: "bool \<Rightarrow> (hive \<times> string) list" where
  "envkeys allusers =
     [(HKEY_CURRENT_USER, ''Environment'')] @
     (if allusers
      then [(HKEY_LOCAL_MACHINE,
             ''SYSTEM'' @ [backslash] @ ''CurrentControlSet'' @ [backslash] @ ''Control'' @
             [backslash] @ ''Session Manager'' @ [backslash] @ ''Environment'')]
      else [])"

definition remove_from_system_path :: "host \<Rightarrow> string \<Rightarrow> bool \<Rightarrow> string \<Rightarrow> unit io" where
  "remove_from_system_path h pathname allusers path_env_var =
     seq_io (map (clean_key h (normcase True (normpath h pathname)) path_env_var) (envkeys allusers))"

definition broadcast_environment_settings_change :: "unit io" where
  "broadcast_environment_settings_change = emit Broadcast"


section \<open>AnacondaMixin and MinicondaOfflineInstaller\<close>

definition IS_WINDOWS :: "installer \<Rightarrow> bool" where
  "IS_WINDOWS self = (sys_platform self = ''win32'')"

definition sep :: "installer \<Rightarrow> char" where
  "sep self = (if IS_WINDOWS self then backslash else CHR ''/'')"

text \<open>
  \<^verbatim>\<open>os.path.join(a, b)\<close> on strings, for an absolute directory \<open>a\<close> and a relative \<open>b\<close>, and
  \<^verbatim>\<open>os.path.abspath\<close> of a relative path.
\<close>

definition str_path_join :: "char \<Rightarrow> string \<Rightarrow> string \<Rightarrow> string" where
  "str_path_join c a b = (if a = [] then b else if last a = c then a @ b else a @ [c] @ b)"

definition abspath :: "host \<Rightarrow> installer \<Rightarrow> path \<Rightarrow> string" where
  "abspath h self p = str_path_join (sep self) (cwd h) (path_str (sep self) p)"

text \<open>\<^verbatim>\<open>os.path.split\<close> and \<^verbatim>\<open>os.path.basename\<close>\<close>

definition split_path :: "path \<Rightarrow> path \<times> string" where
  "split_path p = (butlast p, if p = [] then [] else last p)"

definition basename :: "path \<Rightarrow> string" where
  "basename p = snd (split_path p)"

definition name :: string where
  "name = ''miniconda3''"

definition build_install_dir :: path where
  "build_install_dir = [''build_temp'']"

definition output_dir :: "installer \<Rightarrow> path" where
  "output_dir self = [''output'', name @ ''-'' @ version self @ ccdc_version self]"

definition output_conda_offline_channel :: "installer \<Rightarrow> path" where
  "output_conda_offline_channel self = output_dir self @ [''conda_offline_channel'']"

text \<open>
  The class attributes and \<^verbatim>\<open>__init__\<close> of MinicondaOfflineInstaller on a host whose
  \<^verbatim>\<open>platform.system()\<close> is \<open>sys\<close> and whose \<^verbatim>\<open>sys.platform\<close> is \<open>plat\<close>. The constructor
  reads \<open>installer_name\<close>, so it raises where that does.
\<close>

definition class_attributes :: "string \<Rightarrow> string \<Rightarrow> installer" where
  "class_attributes sys plat =
     \<lparr> distribution = ''Miniconda'', conda_python_version = ''3'', version = ''4.7.12.1'',
       ccdc_version = ''-2'', bitness = ''64bit'', system = sys, sys_platform = plat,
       output_installer = [], conda_bz2_src_packages = [], conda_conda_src_packages = [] \<rparr>"

definition MinicondaOfflineInstaller :: "string \<Rightarrow> string \<Rightarrow> error + installer" where
  "MinicondaOfflineInstaller sys plat =
     bind_sum (installer_name (class_attributes sys plat)) (\<lambda>n.
       Inr ((class_attributes sys plat)
         \<lparr> output_installer := output_dir (class_attributes sys plat) @ [n],
           conda_bz2_src_packages := build_install_dir @ [''pkgs'', ''*.bz2''],
           conda_conda_src_packages := build_install_dir @ [''pkgs'', ''*.conda''] \<rparr>))"

definition get_source_packages_from_mirror :: "host \<Rightarrow> installer \<Rightarrow> unit io" where
  "get_source_packages_from_mirror h self =
     bind_io (lift_io (installer_name self)) (\<lambda>n.
     bind_io (lift_io (py_percent ''https://repo.continuum.io/miniconda/%s'' [n])) (\<lambda>installer_url.
     bind_io (lift_io (py_percent ''Get %s -> %s''
                [installer_url, path_str (sep self) (output_installer self)])) (\<lambda>msg.
     then_io (print msg)
    (then_io (emit (HttpGet installer_url))
    (bind_io (lift_io (http_get h installer_url)) (\<lambda>content.
     fs_op (write_file (output_installer self) content)))))))"

definition clean_build_and_output :: "host \<Rightarrow> installer \<Rightarrow> unit io" where
  "clean_build_and_output h self =
     then_io (try_pass (rmtree h (output_dir self))) (try_pass (rmtree h build_install_dir))"

definition condarc_paths :: "string list" where
  "condarc_paths =
     [''/etc/conda/.condarc'', ''/etc/conda/condarc'', ''/etc/conda/condarc.d/'',
      ''/var/lib/conda/.condarc'', ''/var/lib/conda/condarc'', ''/var/lib/conda/condarc.d/'',
      ''~/.conda/.condarc'', ''~/.conda/condarc'', ''~/.conda/condarc.d/'', ''~/.condarc'']"

definition check_condarc_presence :: "host \<Rightarrow> unit io" where
  "check_condarc_presence h =
     seq_io (map (\<lambda>path.
         if exists_abs h (expanduser h path)
         then bind_io (lift_io (py_percent
                ''Conda configuration found in %s. This might affect installation of packages''
                [path])) print
         else return_io ())
       condarc_paths)"

definition pin_python_version :: "installer \<Rightarrow> unit io" where
  "pin_python_version self =
     bind_io (lift_io (py_format (''python {0}.*'' @ [newline]) [conda_python_version self])) (\<lambda>pin_string.
       fs_op (write_file (build_install_dir @ [''conda-meta'', ''pinned'']) pin_string))"

definition install_args :: "host \<Rightarrow> installer \<Rightarrow> string list" where
  "install_args h self =
     (if IS_WINDOWS self
      then [path_str (sep self) (output_installer self), ''/S'',
            ''/D='' @ abspath h self build_install_dir]
      else [''sh'', path_str (sep self) (output_installer self), ''-b'', ''-f'', ''-p'',
            abspath h self build_install_dir])"

definition clean_up_system_path :: "host \<Rightarrow> installer \<Rightarrow> unit io" where
  "clean_up_system_path h self w =
     (let for_all_users = (lookup (fs (mach w)) (build_install_dir @ [''.nonadmin'']) = None)
      in seq_io
           [remove_from_system_path h (path_str (sep self) build_install_dir) for_all_users ''PATH'',
            remove_from_system_path h (path_str (sep self) (build_install_dir @ [''Scripts'']))
              for_all_users ''PATH'',
            broadcast_environment_settings_change] w)"

definition install_anaconda :: "host \<Rightarrow> installer \<Rightarrow> unit io" where
  \<open>install_anaconda h self =
     bind_io (lift_io (py_percent ''Running %s'' [repr_list h (install_args h self)])) (\<lambda>msg.
     then_io (print msg)
    (bind_io (call h (install_args h self) (environ h)) (\<lambda>outcome.
     then_io (if IS_WINDOWS self then clean_up_system_path h self else return_io ())
       (if outcome \<noteq> 0
        then bind_io (lift_io (py_format ''Failed to run "{0}"'' [repr_list h (install_args h self)]))
               (\<lambda>m. raise_io (RuntimeError m))
        else return_io ()))))\<close>

definition args_for :: "installer \<Rightarrow> string \<Rightarrow> string" where
  "args_for self executable_name =
     path_str (sep self)
       (build_install_dir @
        [if IS_WINDOWS self then ''Scripts'' else ''bin'',
         executable_name @ (if IS_WINDOWS self then ''.exe'' else [])])"

text \<open>
  The environment of a package manager call: \<^verbatim>\<open>os.environ\<close> with CONDARC set and, on
  Windows, PATH extended (\<^verbatim>\<open>my_env['PATH']\<close> raises KeyError when there is none).
\<close>

definition pkg_manager_env :: "host \<Rightarrow> installer \<Rightarrow> error + (string \<times> string) list" where
  "pkg_manager_env h self =
     (let my_env = dict_set (environ h) ''CONDARC''
            (str_path_join (sep self) (script_dir h) ''condarc-for-offline-installer-creation'')
      in if IS_WINDOWS self
         then bind_sum (dict_get my_env ''PATH'') (\<lambda>old.
              bind_sum (py_percent ''%s;%s''
                  [path_str (sep self) (build_install_dir @ [''Library'', ''bin'']), old]) (\<lambda>new.
                Inr (dict_set my_env ''PATH'' new)))
         else Inr my_env)"

definition pkg_manager_args :: "installer \<Rightarrow> string \<Rightarrow> string list \<Rightarrow> string list \<Rightarrow> string list" where
  "pkg_manager_args self pkg_manager_name extra_args package_specs =
     [args_for self pkg_manager_name] @ extra_args @ package_specs"

definition run_pkg_manager :: "host \<Rightarrow> installer \<Rightarrow> string \<Rightarrow> string list \<Rightarrow> string list \<Rightarrow> unit io" where
  "run_pkg_manager h self pkg_manager_name extra_args package_specs =
     bind_io (lift_io (pkg_manager_env h self)) (\<lambda>my_env.
     bind_io (call h (pkg_manager_args self pkg_manager_name extra_args package_specs) my_env) (\<lambda>outcome.
       if outcome \<noteq> 0
       then seq_io
              [print ''_run_pkg_manager fail info'',
               emit (PrintArgs (pkg_manager_args self pkg_manager_name extra_args package_specs)),
               emit (PrintEnv my_env),
               bind_io (lift_io (py_format ''Could not install {0} with {1}''
                          [join '' '' package_specs, pkg_manager_name]))
                 (\<lambda>m. raise_io (RuntimeError m))]
       else return_io ()))"

text \<open>The method of the mixin, and the one of MinicondaOfflineInstaller that overrides it.\<close>

definition AnacondaMixin_conda_install :: "host \<Rightarrow> installer \<Rightarrow> string list \<Rightarrow> unit io" where
  "AnacondaMixin_conda_install h self package_specs =
     run_pkg_manager h self ''conda'' [''install'', ''-y''] package_specs"

definition conda_install :: "host \<Rightarrow> installer \<Rightarrow> string list \<Rightarrow> unit io" where
  "conda_install h self package_specs =
     run_pkg_manager h self ''conda'' [''install'', ''-y'', ''--download-only''] package_specs"

definition conda_cleanup :: "host \<Rightarrow> installer \<Rightarrow> unit io" where
  "conda_cleanup h self = run_pkg_manager h self ''conda'' [''clean'', ''-y'', ''--all''] []"

definition conda_update :: "host \<Rightarrow> installer \<Rightarrow> unit io" where
  "conda_update h self = run_pkg_manager h self ''conda'' [''update'', ''-y'', ''--all''] []"

definition base_conda_packages :: "string list" where
  "base_conda_packages =
     [''Pillow'', ''six'', ''lxml'', ''numpy'', ''matplotlib'', ''pytest''] @
     [''docxtpl'', ''pockets'', ''docutils'', ''pygments'', ''sphinx'', ''pandas'', ''py-xgboost'']"

definition channel_arch :: "installer \<Rightarrow> string" where
  "channel_arch self =
     (if sys_platform self = ''win32''
      then (if bitness self = ''64bit'' then ''win-64'' else ''win-32'')
      else if sys_platform self = ''darwin'' then ''osx-64''
      else ''linux-64'')"

definition conda_index :: "host \<Rightarrow> installer \<Rightarrow> path \<Rightarrow> unit io" where
  "conda_index h self channel =
     run_pkg_manager h self ''conda''
       [''index'', ''-p'', str_path_join (sep self) (script_dir h) ''repodata-hotfixes/main.py'',
        path_str (sep self) channel] []"

text \<open>
  One loop of copy\_packages over the paths a glob returned, with the set
  \<open>known_packages\<close> it builds: for each file the name is extracted and added to the set,
  then the file is copied.
\<close>

fun copy_each :: "path \<Rightarrow> path list \<Rightarrow> string set \<Rightarrow> (string set) io" where
  "copy_each conda_package_dest [] known_packages = return_io known_packages"
| "copy_each conda_package_dest (conda_package # rest) known_packages =
     bind_io (lift_io (package_name (basename conda_package))) (\<lambda>pkg.
     then_io (fs_op (copyfile conda_package (conda_package_dest @ [basename conda_package])))
       (copy_each conda_package_dest rest (insert pkg known_packages)))"

definition conda_package_dest :: "installer \<Rightarrow> path" where
  "conda_package_dest self = output_conda_offline_channel self @ [channel_arch self]"

definition copy_packages :: "installer \<Rightarrow> unit io" where
  "copy_packages self =
     then_io (fs_op (makedirs (conda_package_dest self)))
    (bind_io (\<lambda>w. copy_each (conda_package_dest self)
                (glob (IS_WINDOWS self) (conda_bz2_src_packages self) (fs (mach w))) {} w) (\<lambda>known.
     bind_io (\<lambda>w. copy_each (conda_package_dest self)
                (glob (IS_WINDOWS self) (conda_conda_src_packages self) (fs (mach w))) known w) (\<lambda>known'.
     return_io ())))"

definition index_offline_channel :: "host \<Rightarrow> installer \<Rightarrow> unit io" where
  "index_offline_channel h self =
     then_io (try_pass (AnacondaMixin_conda_install h self [''conda-build'']))
       (conda_index h self (output_conda_offline_channel self))"

definition squote :: char where
  "squote = CHR 0x27"

definition text_lines :: "string list \<Rightarrow> string" where
  "text_lines ls = concat (map (\<lambda>l. l @ [newline]) ls)"

definition windows_install_script :: string where
  \<open>windows_install_script = text_lines
    [''@echo off'',
     ''if x%~s1==x ('',
     ''  echo "install target_dir [ccdc_packages_and_package_name_pairs...]"'',
     ''  goto end'',
     '')'',
     ''setlocal'',
     ''set installer_dir=%~dps0'',
     ''start /wait "" "%installer_dir%{{ installer_exe }}" /AddToPath=0 /S /D=%~s1'',
     ''call %~s1'' @ [backslash] @ ''Scripts'' @ [backslash] @ ''activate'',
     ''call conda install -y --channel "%installer_dir%conda_offline_channel" --offline --override-channels {{ conda_packages }}'',
     ''shift'',
     '':next_package'',
     ''if not "%1" == "" ('',
     ''    call conda install -y --channel "%installer_dir%%1_conda_channel" --offline --override-channels %2'',
     ''    shift'',
     ''    shift'',
     ''    goto next_package'',
     '')'',
     ''endlocal'',
     '':end'']\<close>

definition unix_install_script :: string where
  \<open>unix_install_script = text_lines
    [''#!/bin/sh'',
     ''if test $# -eq 0 ; then'',
     ''    echo '' @ [squote] @ ''install target_dir [ccdc_packages_and_package_name_pairs...]'' @ [squote],
     ''    exit 1'',
     ''fi'',
     ''INSTALLER_DIR=$(dirname -- "$0")'',
     ''chmod +x $INSTALLER_DIR/{{ installer_exe }}'',
     ''$INSTALLER_DIR/{{ installer_exe }} -b -p $1'',
     ''unset PYTHONPATH'',
     ''unset PYTHONHOME'',
     ''. $1/bin/activate ""'',
     ''conda install -y --channel "$INSTALLER_DIR/conda_offline_channel" --offline --override-channels {{ conda_packages }}'',
     ''shift'',
     ''while test $# -gt 1'',
     ''do'',
     ''    conda install -y --channel "$INSTALLER_DIR/$1_conda_channel" --offline --override-channels $2'',
     ''    shift'',
     ''    shift'',
     ''done'']\<close>

text \<open>The two substitutions of write\_install\_script, in their order.\<close>

definition render_install_script :: "installer \<Rightarrow> string \<Rightarrow> string list \<Rightarrow> string" where
  "render_install_script self installer_exe conda_packages =
     replace
       (replace (if sys_platform self = ''win32'' then windows_install_script else unix_install_script)
          ''{{ installer_exe }}'' installer_exe)
       ''{{ conda_packages }}'' (join '' '' conda_packages)"

definition install_name :: "installer \<Rightarrow> error + path" where
  "install_name self =
     bind_sum (py_format ''install.{0}'' [if sys_platform self = ''win32'' then ''bat'' else ''sh''])
       (\<lambda>n. Inr (fst (split_path (output_installer self)) @ [n]))"

definition write_install_script :: "installer \<Rightarrow> unit io" where
  "write_install_script self =
     bind_io (lift_io (install_name self)) (\<lambda>install_name.
     then_io (fs_op (write_file install_name
                (render_install_script self (snd (split_path (output_installer self)))
                   base_conda_packages)))
       (if sys_platform self \<noteq> ''win32'' then chmod install_name else return_io ()))"

text \<open>The reset at the head of build: the clean-up and the two \<^verbatim>\<open>os.makedirs\<close>.\<close>

definition reset_directories :: "host \<Rightarrow> installer \<Rightarrow> unit io" where
  "reset_directories h self =
     then_io (clean_build_and_output h self)
    (then_io (fs_op (makedirs build_install_dir))
             (fs_op (makedirs (output_dir self))))"

definition build :: "host \<Rightarrow> installer \<Rightarrow> unit io" where
  "build h self =
     then_io (print ''Cleaning up build and output directories'')
    (then_io (reset_directories h self)
    (then_io (print ''Getting installer'')
    (then_io (get_source_packages_from_mirror h self)
    (then_io (print ''Check there are no condarc files around'')
    (then_io (check_condarc_presence h)
    (then_io (print ''Install anaconda in the build directory'')
    (then_io (install_anaconda h self)
    (then_io (print ''Pin python version'')
    (then_io (pin_python_version self)
    (then_io (print ''Remove conda packages that were part of the installer'')
    (then_io (conda_cleanup h self)
    (then_io (print ''Download updates so that we can distribute them consistently'')
    (then_io (conda_update h self)
    (then_io (print ''Fetch packages'')
    (then_io (conda_install h self base_conda_packages)
    (then_io (print ''Copy packages to output directory'')
    (then_io (copy_packages self)
    (then_io (print ''Create index of offline channel'')
    (then_io (index_offline_channel h self)
    (then_io (print ''Create install script'')
             (write_install_script self)))))))))))))))))))))"

text \<open>\<^verbatim>\<open>MinicondaOfflineInstaller().build()\<close>\<close>

definition main :: "host \<Rightarrow> string \<Rightarrow> string \<Rightarrow> unit io" where
  "main h sys plat =
     bind_io (lift_io (MinicondaOfflineInstaller sys plat)) (\<lambda>self. build h self)"


section \<open>Words of the specification\<close>



text \<open>
  The steps of build with the messages that announce them, in the order of the source, and
  the run of such a list: each message is printed, then its step runs, and a step that
  raises ends the run. A message of this list is a step marker; an action is quiet when
  what it adds to the output holds no step marker.
\<close>

definition build_steps :: "host \<Rightarrow> installer \<Rightarrow> (string \<times> unit io) list" where
  "build_steps h self =
     [(''Cleaning up build and output directories'', reset_directories h self),
      (''Getting installer'', get_source_packages_from_mirror h self),
      (''Check there are no condarc files around'', check_condarc_presence h),
      (''Install anaconda in the build directory'', install_anaconda h self),
      (''Pin python version'', pin_python_version self),
      (''Remove conda packages that were part of the installer'', conda_cleanup h self),
      (''Download updates so that we can distribute them consistently'', conda_update h self),
      (''Fetch packages'', conda_install h self base_conda_packages),
      (''Copy packages to output directory'', copy_packages self),
      (''Create index of offline channel'', index_offline_channel h self),
      (''Create install script'', write_install_script self)]"

fun run_steps :: "(string \<times> unit io) list \<Rightarrow> unit io" where
  "run_steps [] = return_io ()"
| "run_steps ((msg, step) # rest) = then_io (print msg) (then_io step (run_steps rest))"

definition step_messages :: "string list" where
  "step_messages =
     [''Cleaning up build and output directories'',
      ''Getting installer'',
      ''Check there are no condarc files around'',
      ''Install anaconda in the build directory'',
      ''Pin python version'',
      ''Remove conda packages that were part of the installer'',
      ''Download updates so that we can distribute them consistently'',
      ''Fetch packages'',
      ''Copy packages to output directory'',
      ''Create index of offline channel'',
      ''Create install script'']"

definition is_marker :: "event \<Rightarrow> bool" where
  "is_marker e = (case e of Print s \<Rightarrow> List.member step_messages s | _ \<Rightarrow> False)"

definition quiet :: "'a io \<Rightarrow> bool" where
  "quiet m = (\<forall>w. \<exists>evs. out (snd (m w)) = out w @ evs \<and> filter is_marker evs = [])"

section \<open>Example hosts and worlds\<close>

text \<open>
  A Linux host on which the installer makes \<^verbatim>\<open>conda-meta\<close> and \<^verbatim>\<open>pkgs\<close> under the build
  directory, the download-only install fetches two archives, and the install of
  \<^verbatim>\<open>conda-build\<close> exits with code 1; the same host with an output directory that cannot be
  emptied; a working directory with nothing in it, and one that an earlier run has used; a
  Windows host and a registry whose two environment keys hold the same PATH value.
\<close>

definition example_spawn :: "string list \<Rightarrow> (string \<times> string) list \<Rightarrow> machine \<Rightarrow> proc_result \<times> machine" where
  "example_spawn args env m =
     (if hd args = ''sh''
      then (Exited 0, m\<lparr>fs := put [''build_temp'', ''pkgs''] (Dir [])
                              (put [''build_temp'', ''conda-meta''] (Dir []) (fs m))\<rparr>)
      else if ''--download-only'' \<in> set args
      then (Exited 0, m\<lparr>fs := put [''build_temp'', ''pkgs'', ''pytz-2019.3-py_0.conda''] (File ''pytz'')
                              (put [''build_temp'', ''pkgs'', ''six-1.12.0-py37_0.tar.bz2''] (File ''six'') (fs m))\<rparr>)
      else if ''conda-build'' \<in> set args then (Exited 1, m)
      else (Exited 0, m))"

definition example_host :: host where
  "example_host =
     \<lparr> environ = [(''PATH'', ''/usr/bin'')], cwd = ''/work'', script_dir = ''/repo'',
       expanduser = (\<lambda>s. s), exists_abs = (\<lambda>s. False), http_get = (\<lambda>u. Inr ''installer''),
       spawn = example_spawn, rmtree_fault = (\<lambda>p es. None), repr_list = join '', '',
       normpath = (\<lambda>s. s), expand_env = (\<lambda>s. s) \<rparr>"

definition empty_world :: world where
  "empty_world = \<lparr> mach = \<lparr> fs = Dir [], reg = (\<lambda>k. None) \<rparr>, out = [] \<rparr>"



definition linux_installer :: installer where
  "linux_installer =
     \<lparr> distribution = ''Miniconda'', conda_python_version = ''3'', version = ''4.7.12.1'',
       ccdc_version = ''-2'', bitness = ''64bit'', system = ''Linux'', sys_platform = ''linux'',
       output_installer = [''output'', ''miniconda3-4.7.12.1-2'', ''Miniconda3-4.7.12.1-Linux-x86_64.sh''],
       conda_bz2_src_packages = [''build_temp'', ''pkgs'', ''*.bz2''],
       conda_conda_src_packages = [''build_temp'', ''pkgs'', ''*.conda''] \<rparr>"

definition cache_world :: "(string \<times> node) list \<Rightarrow> world" where
  "cache_world es =
     \<lparr> mach = \<lparr> fs = Dir [(''build_temp'', Dir [(''pkgs'', Dir es)]),
                          (''output'', Dir [(''miniconda3-4.7.12.1-2'', Dir [])])],
                reg = (\<lambda>k. None) \<rparr>,
       out = [] \<rparr>"



section \<open>Facts about the file system\<close>

lemma lookup_put_other:
  "\<not> prefix p q \<Longrightarrow> \<not> prefix q p \<Longrightarrow> lookup (put p v t) q = lookup t q"
  and lookup_in_put_in_other:
  "\<not> prefix (c # cs) (d # ds) \<Longrightarrow> \<not> prefix (d # ds) (c # cs) \<Longrightarrow>
     lookup_in (put_in c cs v es) d ds = lookup_in es d ds"
proof (induction p v t and c cs v es arbitrary: q and d ds rule: put_put_in.induct)
  case (1 v n)
  then show ?case by simp
next
  case (2 c cs v s)
  then show ?case by simp
next
  case (3 c cs v es)
  then show ?case by (cases q) auto
next
  case (4 c cs v)
  then show ?case by auto
next
  case (5 c cs v k m es)
  then show ?case by auto
qed

lemma lookup_put_same:
  "p = [] \<or> (\<exists>es0. lookup t (butlast p) = Some (Dir es0)) \<Longrightarrow> lookup (put p v t) p = Some v"
  and lookup_in_put_in_same:
  "cs = [] \<or> (\<exists>es0. lookup_in es c (butlast cs) = Some (Dir es0)) \<Longrightarrow>
     lookup_in (put_in c cs v es) c cs = Some v"
proof (induction p v t and c cs v es rule: put_put_in.induct)
  case (1 v n)
  then show ?case by simp
next
  case (2 c cs v s)
  then show ?case by (auto split: if_splits)
next
  case (3 c cs v es)
  then show ?case by (auto split: if_splits)
next
  case (4 c cs v)
  then show ?case by auto
next
  case (5 c cs v k m es)
  then show ?case by (auto split: if_splits)
qed


lemma lookup_remove_same:
  "p \<noteq> [] \<Longrightarrow> lookup (remove p t) p = None"
  and lookup_in_remove_in_same:
  "lookup_in (remove_in c cs es) c cs = None"
proof (induction p t and c cs es rule: remove_remove_in.induct)
qed auto

lemma lookup_remove_other:
  "\<not> prefix p q \<Longrightarrow> \<not> prefix q p \<Longrightarrow> lookup (remove p t) q = lookup t q"
  and lookup_in_remove_in_other:
  "\<not> prefix (c # cs) (d # ds) \<Longrightarrow> \<not> prefix (d # ds) (c # cs) \<Longrightarrow>
     lookup_in (remove_in c cs es) d ds = lookup_in es d ds"
proof (induction p t and c cs es arbitrary: q and d ds rule: remove_remove_in.induct)
  case (1 n)
  then show ?case by simp
next
  case (2 c cs s)
  then show ?case by simp
next
  case (3 c cs es)
  then show ?case by (cases q) auto
next
  case (4 c cs)
  then show ?case by auto
next
  case (5 c cs k m es)
  then show ?case by auto
qed

lemma mkdir_Inr:
  "mkdir p t = Inr t' \<Longrightarrow>
     p \<noteq> [] \<and> lookup t p = None \<and> (\<exists>es. lookup t (butlast p) = Some (Dir es)) \<and> t' = put p (Dir []) t"
  by (auto simp: mkdir_def split: if_splits option.splits node.splits)

lemma makedirs_other:
  "makedirs p t = Inr t' \<Longrightarrow> q \<noteq> [] \<Longrightarrow> hd q \<noteq> hd p \<Longrightarrow> lookup t' q = lookup t q"
proof (induction p t arbitrary: t' rule: makedirs.induct)
  case (1 p t)
  from "1.prems"(1) have pne: "p \<noteq> []"
    by (subst (asm) makedirs.simps) (auto split: if_splits)
  have np: "\<not> prefix p q" "\<not> prefix q p"
    using pne "1.prems"(2,3) by (auto simp: prefix_def)
  show ?case
  proof (cases "butlast p \<noteq> [] \<and> lookup t (butlast p) = None")
    case True
    then have hdb: "hd q \<noteq> hd (butlast p)"
      using "1.prems"(3) pne by (cases p) auto
    show ?thesis
    proof (cases "makedirs (butlast p) t")
      case (Inl e)
      with True "1.prems"(1) pne obtain x where "e = FileExistsError x" and "mkdir p t = Inr t'"
        by (subst (asm) makedirs.simps) (auto split: if_splits error.splits)
      then show ?thesis using np by (auto dest!: mkdir_Inr simp: lookup_put_other)
    next
      case (Inr t1)
      with True "1.prems"(1) pne have mk: "mkdir p t1 = Inr t'"
        by (subst (asm) makedirs.simps) (auto split: if_splits)
      have "lookup t1 q = lookup t q"
        using "1.IH" [OF pne True Inr "1.prems"(2) hdb] .
      then show ?thesis using mk np by (auto dest!: mkdir_Inr simp: lookup_put_other)
    qed
  next
    case False
    with "1.prems"(1) pne have "mkdir p t = Inr t'"
      by (subst (asm) makedirs.simps) (auto split: if_splits)
    then show ?thesis using np by (auto dest!: mkdir_Inr simp: lookup_put_other)
  qed
qed


section \<open>Facts about the formatted names\<close>

lemma py_format_installer:
  "py_format ''{0}{1}-{2}-{3}-{4}.{5}'' [a, b, c, d, e, f]
     = Inr (a @ b @ ''-'' @ c @ ''-'' @ d @ ''-'' @ e @ ''.'' @ f)"
  by (simp add: is_digit_def digit_val_def)

lemma installer_name_format:
  assumes "(system self, p, e) \<in> {(''Windows'', ''Windows'', ''exe''), (''Linux'', ''Linux'', ''sh''),
             (''Darwin'', ''MacOSX'', ''sh'')}"
    and "bitness self = ''64bit''"
  shows "installer_name self =
           Inr (distribution self @ conda_python_version self @ ''-'' @ version self @ ''-'' @ p @
                ''-'' @ ''x86_64'' @ ''.'' @ e)"
  using assms unfolding installer_name_def py_format_installer
  by (auto simp: bind_sum_def dict_get_def platforms_def architectures_def extensions_def)

section \<open>Facts about the sequencing of actions\<close>

lemma bind_io_Inr:
  "bind_io m f w = (Inr y, w') \<longleftrightarrow> (\<exists>x w1. m w = (Inr x, w1) \<and> f x w1 = (Inr y, w'))"
  by (auto simp: bind_io_def split: prod.splits sum.splits)

lemma then_io_Inr:
  "then_io m k w = (Inr y, w') \<longleftrightarrow> (\<exists>x w1. m w = (Inr x, w1) \<and> k w1 = (Inr y, w'))"
  by (simp add: then_io_def bind_io_Inr)

lemma fs_op_Inr:
  "fs_op f w = (Inr u, w') \<longleftrightarrow> (\<exists>t. f (fs (mach w)) = Inr t \<and> w' = set_fs t w)"
  by (auto simp: fs_op_def split: sum.splits)

lemma fs_set_fs [simp]: "fs (mach (set_fs t w)) = t"
  by (simp add: set_fs_def)

lemma out_set_fs [simp]: "out (set_fs t w) = out w"
  by (simp add: set_fs_def)

lemma try_pass_eq: "try_pass m w = (r, w') \<longleftrightarrow> r = Inr () \<and> w' = snd (m w)"
  by (auto simp: try_pass_def)



section \<open>Facts about glob and the copy loop\<close>

lemma fnmatchcase_literal:
  "CHR ''*'' \<notin> set lit \<Longrightarrow> CHR ''?'' \<notin> set lit \<Longrightarrow> fnmatchcase n lit = (n = lit)"
  by (induction n lit rule: fnmatchcase.induct) auto

lemma fnmatchcase_star:
  "CHR ''*'' \<notin> set lit \<Longrightarrow> CHR ''?'' \<notin> set lit \<Longrightarrow> fnmatchcase n (CHR ''*'' # lit) = suffix lit n"
proof (induction n)
  case Nil
  then show ?case by (cases lit) (auto simp: fnmatchcase_literal)
next
  case (Cons c cs)
  then show ?case by (auto simp: fnmatchcase_literal suffix_Cons)
qed

lemma normcase_bz2: "normcase b ''*.bz2'' = ''*.bz2''" "normcase b ''*.conda'' = ''*.conda''"
  by (simp_all add: normcase_def py_lower_def backslash_def)

lemma glob_pkgs:
  assumes "lookup t (build_install_dir @ [''pkgs'']) = Some (Dir es)"
  shows "glob windows (build_install_dir @ [''pkgs'', ''*.bz2'']) t
           = map (\<lambda>n. build_install_dir @ [''pkgs'', n])
               (filter (\<lambda>n. \<not> ishidden n \<and> suffix ''.bz2'' (normcase windows n)) (map fst es))"
    and "glob windows (build_install_dir @ [''pkgs'', ''*.conda'']) t
           = map (\<lambda>n. build_install_dir @ [''pkgs'', n])
               (filter (\<lambda>n. \<not> ishidden n \<and> suffix ''.conda'' (normcase windows n)) (map fst es))"
  using assms
  by (simp_all add: glob_def build_install_dir_def ishidden_def normcase_bz2 fnmatchcase_star)

lemma glob_depends_on_dir:
  "lookup t (butlast p) = lookup t' (butlast p) \<Longrightarrow> glob windows p t = glob windows p t'"
  by (simp add: glob_def)

lemma write_file_Inr:
  "write_file p c t = Inr t' \<Longrightarrow>
     p \<noteq> [] \<and> (\<exists>es. lookup t (butlast p) = Some (Dir es)) \<and> t' = put p (File c) t"
  by (auto simp: write_file_def split: if_splits option.splits node.splits)

lemma copyfile_Inr:
  "copyfile src dst t = Inr t' \<Longrightarrow>
     \<exists>c. lookup t src = Some (File c) \<and> dst \<noteq> [] \<and> (\<exists>es. lookup t (butlast dst) = Some (Dir es))
          \<and> t' = put dst (File c) t"
  by (auto simp: copyfile_def split: option.splits node.splits dest!: write_file_Inr)

lemma copy_each_Cons_Inr:
  "copy_each dest (p # rest) K w = (Inr K', w') \<longleftrightarrow>
     (\<exists>pkg t1. package_name (basename p) = Inr pkg
        \<and> copyfile p (dest @ [basename p]) (fs (mach w)) = Inr t1
        \<and> copy_each dest rest (insert pkg K) (set_fs t1 w) = (Inr K', w'))"
  by (auto simp: bind_io_Inr then_io_Inr fs_op_Inr lift_io_def)

lemma copy_each_frame:
  "copy_each dest files K w = (Inr K', w') \<Longrightarrow>
   (\<forall>p\<in>set files. \<not> prefix (dest @ [basename p]) q \<and> \<not> prefix q (dest @ [basename p])) \<Longrightarrow>
   lookup (fs (mach w')) q = lookup (fs (mach w)) q"
proof (induction files arbitrary: K w)
  case Nil
  then show ?case by (simp add: return_io_def)
next
  case (Cons p rest)
  from Cons.prems(1) obtain pkg t1 where
    c: "copyfile p (dest @ [basename p]) (fs (mach w)) = Inr t1" and
    r: "copy_each dest rest (insert pkg K) (set_fs t1 w) = (Inr K', w')"
    unfolding copy_each_Cons_Inr by blast
  from c obtain cnt where t1: "t1 = put (dest @ [basename p]) (File cnt) (fs (mach w))"
    by (auto dest!: copyfile_Inr)
  have "lookup (fs (mach w')) q = lookup (fs (mach (set_fs t1 w))) q"
    using Cons.IH [OF r] Cons.prems(2) by simp
  also have "\<dots> = lookup (fs (mach w)) q"
    using Cons.prems(2) by (simp add: t1 lookup_put_other)
  finally show ?case .
qed

lemma copy_each_copies:
  assumes "copy_each dest files K w = (Inr K', w')"
    and "\<forall>p\<in>set files. \<not> prefix dest p \<and> \<not> prefix p dest"
    and "inj_on basename (set files)"
  shows "\<forall>p\<in>set files. \<exists>c. lookup (fs (mach w)) p = Some (File c)
            \<and> lookup (fs (mach w')) (dest @ [basename p]) = Some (File c)"
  using assms
proof (induction files arbitrary: K w)
  case Nil
  then show ?case by simp
next
  case (Cons p rest)
  from Cons.prems(1) obtain pkg t1 where
    c: "copyfile p (dest @ [basename p]) (fs (mach w)) = Inr t1" and
    r: "copy_each dest rest (insert pkg K) (set_fs t1 w) = (Inr K', w')"
    unfolding copy_each_Cons_Inr by blast
  from copyfile_Inr [OF c] obtain cnt es where cnt: "lookup (fs (mach w)) p = Some (File cnt)"
    and par: "lookup (fs (mach w)) dest = Some (Dir es)"
    and t1: "t1 = put (dest @ [basename p]) (File cnt) (fs (mach w))"
    by auto
  have outside: "\<And>q. \<not> prefix dest q \<Longrightarrow> \<not> prefix q dest \<Longrightarrow> lookup t1 q = lookup (fs (mach w)) q"
    unfolding t1 by (rule lookup_put_other) (auto simp: prefix_def append_eq_append_conv2 Cons_eq_append_conv)
  have IH: "\<forall>q\<in>set rest. \<exists>c. lookup t1 q = Some (File c)
            \<and> lookup (fs (mach w')) (dest @ [basename q]) = Some (File c)"
    using Cons.IH [OF r] Cons.prems(2,3) by (simp add: inj_on_def)
  have rest_ok: "\<forall>q\<in>set rest. \<exists>c. lookup (fs (mach w)) q = Some (File c)
            \<and> lookup (fs (mach w')) (dest @ [basename q]) = Some (File c)"
    using IH outside Cons.prems(2) by auto
  have "\<exists>c. lookup (fs (mach w)) p = Some (File c)
            \<and> lookup (fs (mach w')) (dest @ [basename p]) = Some (File c)"
  proof (cases "p \<in> set rest")
    case True
    then show ?thesis using rest_ok by blast
  next
    case False
    then have "\<forall>q\<in>set rest. basename q \<noteq> basename p"
      using Cons.prems(3) by (auto simp: inj_on_def)
    then have "lookup (fs (mach w')) (dest @ [basename p]) = lookup (fs (mach (set_fs t1 w))) (dest @ [basename p])"
      by (intro copy_each_frame [OF r]) auto
    also have "\<dots> = Some (File cnt)"
      using lookup_put_same [of "dest @ [basename p]" "fs (mach w)" "File cnt"] par by (simp add: t1)
    finally show ?thesis using cnt by simp
  qed
  then show ?case using rest_ok by simp
qed

lemma linux_installer_constructed: "MinicondaOfflineInstaller ''Linux'' ''linux'' = Inr linux_installer"
  by code_simp

lemma installer_name_fields:
  "installer_name (s\<lparr>output_installer := a, conda_bz2_src_packages := b, conda_conda_src_packages := c\<rparr>)
     = installer_name s"
  by (simp add: installer_name_def)

lemma constructed_fields:
  assumes "MinicondaOfflineInstaller sys plat = Inr self"
  shows "conda_bz2_src_packages self = build_install_dir @ [''pkgs'', ''*.bz2'']"
    and "conda_conda_src_packages self = build_install_dir @ [''pkgs'', ''*.conda'']"
    and "sys_platform self = plat" and "system self = sys"
    and "version self = ''4.7.12.1''" and "ccdc_version self = ''-2''" and "bitness self = ''64bit''"
    and "\<exists>n. installer_name self = Inr n \<and> output_installer self = output_dir self @ [n]"
  using assms
  by (auto simp: MinicondaOfflineInstaller_def bind_sum_def installer_name_fields output_dir_def
      split: sum.splits) (simp_all add: class_attributes_def)

lemma hyphen_digit_drop:
  "hyphen_digit (drop i s) \<longleftrightarrow> Suc i < length s \<and> s ! i = CHR ''-'' \<and> is_digit (s ! Suc i)"
proof (cases "Suc i < length s")
  case True
  then have "drop i s = s ! i # s ! Suc i # drop (Suc (Suc i)) s"
    by (simp add: Cons_nth_drop_Suc Suc_lessD)
  then show ?thesis using True by (simp add: hyphen_digit_def)
next
  case False
  then have "length (drop i s) \<le> 1" by simp
  then have "drop i s = [] \<or> (\<exists>c. drop i s = [c])"
    by (cases "drop i s") (auto simp: le_Suc_eq)
  then show ?thesis using False by (auto simp: hyphen_digit_def)
qed

lemma package_name_no_match:
  assumes "\<forall>i. Suc i < length fn \<longrightarrow> \<not> (fn ! i = CHR ''-'' \<and> is_digit (fn ! Suc i))"
  shows "package_name fn = Inl AttributeError"
  using assms
  by (auto simp: package_name_def re_match_group1_def Let_def find_None_iff hyphen_digit_drop
      split: option.splits)

lemma copy_each_bad_name:
  "p \<in> set files \<Longrightarrow> package_name (basename p) = Inl e0 \<Longrightarrow> isl (fst (copy_each dest files K w))"
proof (induction files arbitrary: K w)
  case Nil
  then show ?case by simp
next
  case (Cons q rest)
  show ?case
  proof (cases "package_name (basename q)")
    case (Inl e)
    then show ?thesis by (simp add: bind_io_def lift_io_def)
  next
    case (Inr pkg)
    then have "p \<in> set rest" using Cons.prems by auto
    then show ?thesis
      using Cons.IH [OF _ Cons.prems(2)] Inr
      by (auto simp: bind_io_def lift_io_def then_io_def fs_op_def split: sum.splits prod.splits)
  qed
qed

lemma dest_outside_build [simp]:
  "hd (conda_package_dest self) \<noteq> hd build_install_dir" "conda_package_dest self \<noteq> []"
  by (simp_all add: conda_package_dest_def output_conda_offline_channel_def output_dir_def build_install_dir_def)

lemma pkgs_outside_dest:
  "\<not> prefix (conda_package_dest self @ x) (build_install_dir @ y) \<and>
   \<not> prefix (build_install_dir @ y) (conda_package_dest self @ x)"
  by (simp add: conda_package_dest_def output_conda_offline_channel_def output_dir_def build_install_dir_def)

lemma copy_packages_cases:
  "copy_packages self w =
     (case makedirs (conda_package_dest self) (fs (mach w)) of
        Inl e \<Rightarrow> (Inl e, w)
      | Inr t1 \<Rightarrow>
          (case copy_each (conda_package_dest self)
                  (glob (IS_WINDOWS self) (conda_bz2_src_packages self) t1) {} (set_fs t1 w) of
             (Inl e, w2) \<Rightarrow> (Inl e, w2)
           | (Inr K1, w2) \<Rightarrow>
               (case copy_each (conda_package_dest self)
                       (glob (IS_WINDOWS self) (conda_conda_src_packages self) (fs (mach w2))) K1 w2 of
                  (Inl e, w3) \<Rightarrow> (Inl e, w3)
                | (Inr K2, w3) \<Rightarrow> (Inr (), w3))))"
  by (simp add: copy_packages_def then_io_def bind_io_def fs_op_def return_io_def
      split: sum.splits prod.splits)

lemma copy_aborts:
  assumes self: "MinicondaOfflineInstaller sys plat = Inr self"
    and dir: "lookup (fs (mach w)) (build_install_dir @ [''pkgs'']) = Some (Dir es)"
    and fn: "fn \<in> fst ` set es" "\<not> ishidden fn"
      "suffix ''.bz2'' (normcase (IS_WINDOWS self) fn) \<or> suffix ''.conda'' (normcase (IS_WINDOWS self) fn)"
    and bad: "package_name fn = Inl e0"
  shows "isl (fst (copy_packages self w))"
proof (cases "makedirs (conda_package_dest self) (fs (mach w))")
  case (Inl e)
  then show ?thesis by (simp add: copy_packages_cases)
next
  case (Inr t1)
  note src = constructed_fields(1,2) [OF self]
  have d1: "lookup t1 (build_install_dir @ [''pkgs'']) = Some (Dir es)"
    using makedirs_other [OF Inr, of "build_install_dir @ [''pkgs'']"] dir
    by (simp add: build_install_dir_def conda_package_dest_def output_conda_offline_channel_def output_dir_def)
  let ?p = "build_install_dir @ [''pkgs'', fn]"
  have bn: "basename ?p = fn" by (simp add: basename_def split_path_def)
  obtain r1 w2 where l1: "copy_each (conda_package_dest self)
      (glob (IS_WINDOWS self) (conda_bz2_src_packages self) t1) {} (set_fs t1 w) = (r1, w2)"
    by (cases "copy_each (conda_package_dest self)
      (glob (IS_WINDOWS self) (conda_bz2_src_packages self) t1) {} (set_fs t1 w)")
  show ?thesis
  proof (cases r1)
    case (Inl e)
    then show ?thesis using Inr l1 by (simp add: copy_packages_cases)
  next
    case r1: (Inr K1)
    have notbz: "?p \<notin> set (glob (IS_WINDOWS self) (conda_bz2_src_packages self) t1)"
    proof
      assume "?p \<in> set (glob (IS_WINDOWS self) (conda_bz2_src_packages self) t1)"
      from copy_each_bad_name [OF this, of e0 "conda_package_dest self" "{}" "set_fs t1 w"] bad bn l1 r1
      show False by simp
    qed
    have "lookup (fs (mach w2)) (build_install_dir @ [''pkgs'']) = lookup (fs (mach (set_fs t1 w))) (build_install_dir @ [''pkgs''])"
    proof (rule copy_each_frame)
      show "copy_each (conda_package_dest self)
          (glob (IS_WINDOWS self) (conda_bz2_src_packages self) t1) {} (set_fs t1 w) = (Inr K1, w2)"
        using l1 r1 by simp
      show "\<forall>p\<in>set (glob (IS_WINDOWS self) (conda_bz2_src_packages self) t1).
          \<not> prefix (conda_package_dest self @ [basename p]) (build_install_dir @ [''pkgs'']) \<and>
          \<not> prefix (build_install_dir @ [''pkgs'']) (conda_package_dest self @ [basename p])"
        using pkgs_outside_dest by blast
    qed
    then have d2: "lookup (fs (mach w2)) (build_install_dir @ [''pkgs'']) = Some (Dir es)"
      using d1 by simp
    have "?p \<in> set (glob (IS_WINDOWS self) (conda_conda_src_packages self) (fs (mach w2)))"
      using notbz fn unfolding src glob_pkgs(1) [OF d1] glob_pkgs(2) [OF d2] by auto
    from copy_each_bad_name [OF this, of e0 "conda_package_dest self" K1 w2] bad bn
    show ?thesis using Inr l1 r1 by (auto simp: copy_packages_cases split: sum.splits prod.splits)
  qed
qed

lemma bind_io_assoc: "bind_io (bind_io m f) g = bind_io m (\<lambda>x. bind_io (f x) g)"
  by (auto simp: bind_io_def fun_eq_iff split: prod.splits sum.splits)

lemma copy_each_append:
  "copy_each dest (xs @ ys) K = bind_io (copy_each dest xs K) (copy_each dest ys)"
proof (induction xs arbitrary: K)
  case Nil
  then show ?case by (simp add: bind_io_def return_io_def fun_eq_iff)
next
  case (Cons x xs)
  then show ?case by (simp add: bind_io_assoc then_io_def)
qed

lemma copy_each_known_irrelevant:
  "snd (copy_each dest files K w) = snd (copy_each dest files K' w) \<and>
   map_sum id (\<lambda>known. ()) (fst (copy_each dest files K w))
     = map_sum id (\<lambda>known. ()) (fst (copy_each dest files K' w))"
proof (induction files arbitrary: K K' w)
  case Nil
  then show ?case by (simp add: return_io_def)
next
  case (Cons p rest)
  show ?case
  proof (cases "package_name (basename p)")
    case (Inl e)
    then show ?thesis by (simp add: bind_io_def lift_io_def)
  next
    case (Inr pkg)
    show ?thesis
    proof (cases "copyfile p (dest @ [basename p]) (fs (mach w))")
      case (Inl e)
      then show ?thesis using Inr by (simp add: bind_io_def lift_io_def then_io_def fs_op_def)
    next
      case t1: (Inr t1)
      then show ?thesis using Inr Cons.IH [of "insert pkg K" "set_fs t1 w" "insert pkg K'"]
        by (simp add: bind_io_def lift_io_def then_io_def fs_op_def)
    qed
  qed
qed

lemma copy_packages_copies:
  assumes self: "MinicondaOfflineInstaller sys plat = Inr self"
    and run: "copy_packages self w = (Inr (), w')"
    and dir: "lookup (fs (mach w)) (build_install_dir @ [''pkgs'']) = Some (Dir es)"
    and fn: "fn \<in> fst ` set es" "\<not> ishidden fn"
      "suffix ''.bz2'' (normcase (IS_WINDOWS self) fn) \<or> suffix ''.conda'' (normcase (IS_WINDOWS self) fn)"
  shows "\<exists>c. lookup (fs (mach w)) (build_install_dir @ [''pkgs'', fn]) = Some (File c)
           \<and> lookup (fs (mach w')) (conda_package_dest self @ [fn]) = Some (File c)"
proof -
  note src = constructed_fields(1,2) [OF self]
  let ?d = "conda_package_dest self"
  let ?q = "build_install_dir @ [''pkgs'']"
  from run obtain t1 K1 w2 K2 where
    mk: "makedirs ?d (fs (mach w)) = Inr t1" and
    l1: "copy_each ?d (glob (IS_WINDOWS self) (conda_bz2_src_packages self) t1) {} (set_fs t1 w) = (Inr K1, w2)" and
    l2: "copy_each ?d (glob (IS_WINDOWS self) (conda_conda_src_packages self) (fs (mach w2))) K1 w2 = (Inr K2, w')"
    by (auto simp: copy_packages_cases split: sum.splits prod.splits)
  have out1: "\<And>y. lookup t1 (build_install_dir @ y) = lookup (fs (mach w)) (build_install_dir @ y)"
    using makedirs_other [OF mk]
    by (simp add: build_install_dir_def conda_package_dest_def output_conda_offline_channel_def output_dir_def)
  have d1: "lookup t1 ?q = Some (Dir es)" using out1 [of "[''pkgs'']"] dir by simp
  have "lookup (fs (mach w2)) ?q = lookup (fs (mach (set_fs t1 w))) ?q"
  proof (rule copy_each_frame [OF l1])
    show "\<forall>p\<in>set (glob (IS_WINDOWS self) (conda_bz2_src_packages self) t1).
          \<not> prefix (?d @ [basename p]) ?q \<and> \<not> prefix ?q (?d @ [basename p])"
      using pkgs_outside_dest by blast
  qed
  then have d2: "lookup (fs (mach w2)) ?q = Some (Dir es)" using d1 by simp
  let ?f1 = "glob (IS_WINDOWS self) (conda_bz2_src_packages self) t1"
  let ?f2 = "glob (IS_WINDOWS self) (conda_conda_src_packages self) (fs (mach w2))"
  have g2: "glob (IS_WINDOWS self) (conda_conda_src_packages self) (fs (mach (set_fs t1 w))) = ?f2"
    unfolding src glob_pkgs(2) [OF d2] using glob_pkgs(2) [of "fs (mach (set_fs t1 w))" es] d1 by simp
  have both: "copy_each ?d (?f1 @ ?f2) {} (set_fs t1 w) = (Inr K2, w')"
    using l1 l2 by (simp add: copy_each_append bind_io_def)
  have shape: "\<forall>p\<in>set (?f1 @ ?f2). \<exists>n. p = build_install_dir @ [''pkgs'', n]"
    unfolding src glob_pkgs(1) [OF d1] glob_pkgs(2) [OF d2] by auto
  have mem: "build_install_dir @ [''pkgs'', fn] \<in> set (?f1 @ ?f2)"
    using fn unfolding src glob_pkgs(1) [OF d1] glob_pkgs(2) [OF d2] by auto
  have "\<forall>p\<in>set (?f1 @ ?f2). \<exists>c. lookup (fs (mach (set_fs t1 w))) p = Some (File c)
            \<and> lookup (fs (mach w')) (?d @ [basename p]) = Some (File c)"
  proof (rule copy_each_copies [OF both])
    show "\<forall>p\<in>set (?f1 @ ?f2). \<not> prefix ?d p \<and> \<not> prefix p ?d"
      using shape pkgs_outside_dest [of self "[]"] by (metis append.right_neutral)
    show "inj_on basename (set (?f1 @ ?f2))"
    proof (rule inj_onI)
      fix x y
      assume x: "x \<in> set (?f1 @ ?f2)" and y: "y \<in> set (?f1 @ ?f2)" and e: "basename x = basename y"
      from shape x obtain n where n: "x = build_install_dir @ [''pkgs'', n]" by blast
      from shape y obtain m where m: "y = build_install_dir @ [''pkgs'', m]" by blast
      from e n m show "x = y" by (simp add: basename_def split_path_def)
    qed
  qed
  from this [rule_format, OF mem] obtain c where
    "lookup t1 (build_install_dir @ [''pkgs'', fn]) = Some (File c)"
    "lookup (fs (mach w')) (?d @ [basename (build_install_dir @ [''pkgs'', fn])]) = Some (File c)"
    by auto
  then show ?thesis using out1 [of "[''pkgs'', fn]"] by (auto simp: basename_def split_path_def)
qed


section \<open>Facts about the PATH clean-up\<close>


lemma split_on_not_Nil [simp]: "split_on c s \<noteq> []"
  by (induction s) (auto split: list.splits)


lemma split_on_append_no_sep:
  "c \<notin> set x \<Longrightarrow> split_on c (x @ c # s) = x # split_on c s"
  by (induction x) (auto split: list.splits)









section \<open>Facts about replace and the script templates\<close>

lemma replace_Nil [simp]: "replace [] (p # ps) new = []"
  by (simp add: replace.simps)

lemma replace_miss:
  "\<not> prefix (p # ps) (c # s) \<Longrightarrow> replace (c # s) (p # ps) new = c # replace s (p # ps) new"
  by (subst replace.simps) auto

lemma replace_hit:
  "prefix (p # ps) s \<Longrightarrow> replace s (p # ps) new = new @ replace (drop (length (p # ps)) s) (p # ps) new"
  by (subst replace.simps) auto

lemma replace_absent_prefix:
  "p \<notin> set a \<Longrightarrow> replace (a @ s) (p # ps) new = a @ replace s (p # ps) new"
  by (induction a) (auto simp: replace_miss)

lemma replace_absent: "p \<notin> set a \<Longrightarrow> replace a (p # ps) new = a"
  using replace_absent_prefix [of p a "[]" ps new] by simp

lemma prefix_no_sep:
  assumes "c \<notin> set old"
  shows "prefix old (l @ c # rest) \<longleftrightarrow> prefix old l"
proof
  assume "prefix old (l @ c # rest)"
  then have "prefix old l \<or> (\<exists>us. old = l @ us \<and> us \<noteq> [] \<and> prefix us (c # rest))"
    by (auto simp: prefix_append)
  then show "prefix old l"
  proof
    assume "\<exists>us. old = l @ us \<and> us \<noteq> [] \<and> prefix us (c # rest)"
    then obtain us where "old = l @ us" "us \<noteq> []" "prefix us (c # rest)" by blast
    then have "c \<in> set old" by (cases us) auto
    with assms show ?thesis by simp
  qed simp
next
  assume "prefix old l"
  then show "prefix old (l @ c # rest)" by (rule prefix_prefix)
qed

lemma replace_sep:
  assumes "c \<notin> set (p # ps)"
  shows "replace (l @ c # rest) (p # ps) new = replace l (p # ps) new @ c # replace rest (p # ps) new"
proof (induction l "p # ps" new rule: replace.induct)
  case (1 s new)
  show ?case
  proof (cases "s = []")
    case True
    have "\<not> prefix (p # ps) (c # rest)" using assms by auto
    then show ?thesis using True by (simp add: replace_miss)
  next
    case False
    then obtain x xs where s: "s = x # xs" by (cases s) auto
    show ?thesis
    proof (cases "prefix (p # ps) s")
      case True
      then have pre: "prefix (p # ps) (s @ c # rest)" by (simp add: prefix_no_sep [OF assms])
      from True have len: "length (p # ps) \<le> length s" by (rule prefix_length_le)
      have "replace (s @ c # rest) (p # ps) new
          = new @ replace (drop (length (p # ps)) s @ c # rest) (p # ps) new"
        using replace_hit [OF pre] len by simp
      also have "\<dots> = new @ replace (drop (length (p # ps)) s) (p # ps) new @ c # replace rest (p # ps) new"
        using "1.hyps"(1) [OF _ False True] by simp
      also have "\<dots> = replace s (p # ps) new @ c # replace rest (p # ps) new"
        using replace_hit [OF True, of new] by simp
      finally show ?thesis .
    next
      case np: False
      then have "\<not> prefix (p # ps) (x # (xs @ c # rest))"
        using s prefix_no_sep [OF assms, of s rest] by simp
      then have "replace (x # (xs @ c # rest)) (p # ps) new = x # replace (xs @ c # rest) (p # ps) new"
        by (rule replace_miss)
      then have "replace (s @ c # rest) (p # ps) new = x # replace (xs @ c # rest) (p # ps) new"
        using s by simp
      also have "\<dots> = x # replace xs (p # ps) new @ c # replace rest (p # ps) new"
        using "1.hyps"(2) [OF _ False np] s by simp
      also have "\<dots> = replace s (p # ps) new @ c # replace rest (p # ps) new"
        using replace_miss [of p ps x xs new] np s by simp
      finally show ?thesis .
    qed
  qed
qed

lemma replace_text_lines:
  "newline \<notin> set (p # ps) \<Longrightarrow>
     replace (text_lines ls) (p # ps) new = text_lines (map (\<lambda>l. replace l (p # ps) new) ls)"
proof (induction ls)
  case Nil
  then show ?case by (simp add: text_lines_def)
next
  case (Cons l ls)
  have "text_lines (l # ls) = l @ newline # text_lines ls" by (simp add: text_lines_def)
  then show ?case using Cons by (simp add: replace_sep) (simp add: text_lines_def)
qed

lemma replace_Cons:
  "replace (c # s) (p # ps) new =
     (if prefix (p # ps) (c # s) then new @ replace (drop (length ps) s) (p # ps) new
      else c # replace s (p # ps) new)"
  by (subst replace.simps) auto

lemma render_unix:
  assumes "CHR ''{'' \<notin> set exe" and "sys_platform self \<noteq> ''win32''"
  shows \<open>render_install_script self exe pkgs =
     text_lines
       [''#!/bin/sh'',
        ''if test $# -eq 0 ; then'',
        ''    echo '' @ [squote] @ ''install target_dir [ccdc_packages_and_package_name_pairs...]'' @ [squote],
        ''    exit 1'',
        ''fi'',
        ''INSTALLER_DIR=$(dirname -- "$0")'',
        ''chmod +x $INSTALLER_DIR/'' @ exe,
        ''$INSTALLER_DIR/'' @ exe @ '' -b -p $1'',
        ''unset PYTHONPATH'',
        ''unset PYTHONHOME'',
        ''. $1/bin/activate ""'',
        ''conda install -y --channel "$INSTALLER_DIR/conda_offline_channel" --offline --override-channels '' @ join '' '' pkgs,
        ''shift'',
        ''while test $# -gt 1'',
        ''do'',
        ''    conda install -y --channel "$INSTALLER_DIR/$1_conda_channel" --offline --override-channels $2'',
        ''    shift'',
        ''    shift'',
        ''done'']\<close>
  using assms
  unfolding render_install_script_def unix_install_script_def
  by (simp add: replace_text_lines newline_def squote_def replace_Cons replace_absent
      replace_absent_prefix)

lemma render_windows:
  assumes "CHR ''{'' \<notin> set exe" and "sys_platform self = ''win32''"
  shows \<open>render_install_script self exe pkgs =
     text_lines
       [''@echo off'',
        ''if x%~s1==x ('',
        ''  echo "install target_dir [ccdc_packages_and_package_name_pairs...]"'',
        ''  goto end'',
        '')'',
        ''setlocal'',
        ''set installer_dir=%~dps0'',
        ''start /wait "" "%installer_dir%'' @ exe @ ''" /AddToPath=0 /S /D=%~s1'',
        ''call %~s1'' @ [backslash] @ ''Scripts'' @ [backslash] @ ''activate'',
        ''call conda install -y --channel "%installer_dir%conda_offline_channel" --offline --override-channels '' @ join '' '' pkgs,
        ''shift'',
        '':next_package'',
        ''if not "%1" == "" ('',
        ''    call conda install -y --channel "%installer_dir%%1_conda_channel" --offline --override-channels %2'',
        ''    shift'',
        ''    shift'',
        ''    goto next_package'',
        '')'',
        ''endlocal'',
        '':end'']\<close>
  using assms
  unfolding render_install_script_def windows_install_script_def
  by (simp add: replace_text_lines newline_def squote_def backslash_def replace_Cons replace_absent
      replace_absent_prefix)

lemma text_lines_append: "text_lines (xs @ ys) = text_lines xs @ text_lines ys"
  by (simp add: text_lines_def)

lemma sublist_text_lines:
  assumes "l \<in> set ls" and "sublist xs l"
  shows "sublist xs (text_lines ls)"
proof -
  from assms(1) obtain before after where ls: "ls = before @ l # after"
    by (auto dest: split_list)
  from assms(2) obtain ps ss where l: "l = ps @ xs @ ss" by (auto simp: sublist_def)
  have "text_lines ls = (text_lines before @ ps) @ xs @ (ss @ newline # text_lines after)"
    by (simp add: ls l text_lines_def)
  then show ?thesis unfolding sublist_def by blast
qed

lemma split_on_text_lines:
  "\<forall>l\<in>set ls. newline \<notin> set l \<Longrightarrow> split_on newline (text_lines ls) = ls @ [[]]"
proof (induction ls)
  case Nil
  then show ?case by (simp add: text_lines_def)
next
  case (Cons l ls)
  have "text_lines (l # ls) = l @ newline # text_lines ls" by (simp add: text_lines_def)
  then show ?case using Cons by (simp add: split_on_append_no_sep)
qed

lemma constructed_installer_name:
  assumes "MinicondaOfflineInstaller sys plat = Inr self"
  shows "\<exists>n. installer_name self = Inr n \<and> output_installer self = output_dir self @ [n] \<and>
           n \<in> {''Miniconda3-4.7.12.1-Windows-x86_64.exe'', ''Miniconda3-4.7.12.1-Linux-x86_64.sh'',
                 ''Miniconda3-4.7.12.1-MacOSX-x86_64.sh''}"
proof -
  from constructed_fields(8) [OF assms] obtain n where
    n: "installer_name self = Inr n" "output_installer self = output_dir self @ [n]" by blast
  have f: "system self = sys" "bitness self = ''64bit''" "version self = ''4.7.12.1''"
    "distribution self = ''Miniconda''" "conda_python_version self = ''3''"
    using assms
    by (auto simp: MinicondaOfflineInstaller_def bind_sum_def class_attributes_def split: sum.splits)
  have "sys \<in> {''Windows'', ''Linux'', ''Darwin''}"
    using n(1) f(1)
    by (auto simp: installer_name_def bind_sum_def dict_get_def platforms_def split: sum.splits if_splits)
  then have "n \<in> {''Miniconda3-4.7.12.1-Windows-x86_64.exe'', ''Miniconda3-4.7.12.1-Linux-x86_64.sh'',
                 ''Miniconda3-4.7.12.1-MacOSX-x86_64.sh''}"
    using n(1) f
      installer_name_format [of self "''Windows''" "''exe''"]
      installer_name_format [of self "''Linux''" "''sh''"]
      installer_name_format [of self "''MacOSX''" "''sh''"]
    by auto
  with n show ?thesis by blast
qed

lemma py_format_install: "py_format ''install.{0}'' [x] = Inr (''install.'' @ x)"
  by (simp add: is_digit_def digit_val_def)

lemma write_install_script_Inr:
  assumes "write_install_script self w = (Inr (), w')"
  shows "\<exists>p. install_name self = Inr p \<and>
           lookup (fs (mach w')) p
             = Some (File (render_install_script self (snd (split_path (output_installer self)))
                             base_conda_packages))"
proof -
  have "\<exists>p. install_name self = Inr p"
    unfolding install_name_def py_format_install by (simp add: bind_sum_def)
  then obtain p where p: "install_name self = Inr p" by blast
  let ?txt = "render_install_script self (snd (split_path (output_installer self))) base_conda_packages"
  from assms p obtain t1 where t1: "write_file p ?txt (fs (mach w)) = Inr t1"
    and w': "fs (mach w') = t1"
    by (auto simp: write_install_script_def bind_io_Inr then_io_Inr fs_op_Inr lift_io_def chmod_def
        return_io_def split: if_splits)
  from write_file_Inr [OF t1] have "lookup t1 p = Some (File ?txt)"
    using lookup_put_same [of p "fs (mach w)" "File ?txt"] by auto
  with p w' show ?thesis by simp
qed

lemma unix_conda_line:
  assumes "CHR ''{'' \<notin> set exe" "newline \<notin> set exe" "sys_platform self \<noteq> ''win32''"
  shows \<open>filter (prefix ''conda install'') (split_on newline (render_install_script self exe [''Pillow'', ''six'']))
     = [''conda install -y --channel "$INSTALLER_DIR/conda_offline_channel" --offline --override-channels Pillow six'']\<close>
  unfolding render_unix [OF assms(1,3)]
  using assms(2)
  by (subst split_on_text_lines) (simp_all add: newline_def squote_def)

lemma write_install_script_succeeds:
  assumes "install_name self = Inr p" and "p \<noteq> []"
    and "lookup (fs (mach w)) (butlast p) = Some (Dir es)"
    and "lookup (fs (mach w)) p = None"
  shows "fst (write_install_script self w) = Inr ()"
proof -
  let ?txt = "render_install_script self (snd (split_path (output_installer self))) base_conda_packages"
  have wf: "write_file p ?txt (fs (mach w)) = Inr (put p (File ?txt) (fs (mach w)))"
    using assms by (simp add: write_file_def)
  have "lookup (put p (File ?txt) (fs (mach w))) p = Some (File ?txt)"
    using lookup_put_same [of p "fs (mach w)" "File ?txt"] assms(3) by auto
  then show ?thesis
    using assms(1) wf
    by (simp add: write_install_script_def bind_io_def lift_io_def then_io_def fs_op_def chmod_def
        return_io_def)
qed

section \<open>package\_name and installer\_name\<close>

text \<open>
  Claim C3: for a file name of the form \<^verbatim>\<open>name-1.2.3-build.ext\<close>, package\_name returns
  \<open>name\<close>, the part before the version number. The group of the regular expression is
  greedy, so it ends at the last hyphen that a digit follows: when the build string starts
  with a digit, as in \<^verbatim>\<open>ca-certificates-2019.10.16-0.tar.bz2\<close>, the result still holds the
  version number.
\<close>

theorem package_name_keeps_version:
  "package_name (conda_filename ''ca-certificates'' ''2019.10.16'' ''0'' ''tar.bz2'')
     = Inr ''ca-certificates-2019.10.16''"
  by code_simp




section \<open>The reset of the two directories\<close>





section \<open>Package manager calls\<close>

lemma py_format_could_not:
  "py_format ''Could not install {0} with {1}'' [a, b] = Inr (''Could not install '' @ a @ '' with '' @ b)"
  by (simp add: is_digit_def digit_val_def)

lemma run_pkg_manager_result:
  assumes "pkg_manager_env h self = Inr my_env"
    and "spawn h (pkg_manager_args self m extra specs) my_env (mach w) = (Exited c, m')"
  shows "run_pkg_manager h self m extra specs w =
     (if c \<noteq> 0
      then (Inl (RuntimeError (''Could not install '' @ join '' '' specs @ '' with '' @ m)),
            w\<lparr>mach := m',
              out := out w @ [Call (pkg_manager_args self m extra specs) my_env,
                              Print ''_run_pkg_manager fail info'',
                              PrintArgs (pkg_manager_args self m extra specs),
                              PrintEnv my_env]\<rparr>)
      else (Inr (), w\<lparr>mach := m', out := out w @ [Call (pkg_manager_args self m extra specs) my_env]\<rparr>))"
  using assms unfolding run_pkg_manager_def py_format_could_not
  by (simp add: bind_io_def lift_io_def call_def then_io_def print_def emit_def raise_io_def return_io_def)




section \<open>The index step\<close>

text \<open>
  Claim C9, as stated: the install of \<^verbatim>\<open>conda-build\<close> is a real install, unlike every other
  package fetch of the run. The update fetch is no download-only fetch either: its argument
  list is \<^verbatim>\<open>update -y --all\<close>.
\<close>

theorem conda_update_not_download_only:
  "out (snd (conda_update example_host (class_attributes ''Linux'' ''linux'') empty_world))
     = [Call [''build_temp/bin/conda'', ''update'', ''-y'', ''--all'']
          [(''PATH'', ''/usr/bin''), (''CONDARC'', ''/repo/condarc-for-offline-installer-creation'')]]
   \<and> ''--download-only'' \<notin> set [''build_temp/bin/conda'', ''update'', ''-y'', ''--all'']"
  by code_simp

lemma run_pkg_manager_first_call:
  assumes "pkg_manager_env h self = Inr my_env"
  shows "\<exists>rest. out (snd (run_pkg_manager h self m extra specs w))
           = out w @ Call (pkg_manager_args self m extra specs) my_env # rest"
proof (cases "spawn h (pkg_manager_args self m extra specs) my_env (mach w)")
  case (Pair r m')
  show ?thesis
  proof (cases r)
    case (Exited c)
    with Pair run_pkg_manager_result [OF assms, of m extra specs w c m'] show ?thesis by auto
  next
    case (SpawnFailed e)
    with Pair assms show ?thesis
      by (simp add: run_pkg_manager_def bind_io_def lift_io_def call_def)
  qed
qed

lemma args_for_not_option: "args_for self n \<noteq> ''--download-only''"
  by (simp add: args_for_def path_str_def build_install_dir_def)

text \<open>
  Claim C9, amended: index\_offline\_channel goes on to index the channel from whatever state
  the install of \<^verbatim>\<open>conda-build\<close> leaves, whether that install returned or raised; that
  install is the method of the mixin, whose argument list is \<^verbatim>\<open>install -y conda-build\<close>
  without \<^verbatim>\<open>--download-only\<close>, where the dependency fetch, the only other install of the run,
  passes \<^verbatim>\<open>--download-only\<close>. (The update fetch passes no \<^verbatim>\<open>--download-only\<close> either.)
\<close>

theorem index_offline_channel_swallows:
  "index_offline_channel h self w
     = conda_index h self (output_conda_offline_channel self)
         (snd (AnacondaMixin_conda_install h self [''conda-build''] w))
   \<and> (pkg_manager_env h self = Inr my_env \<longrightarrow>
        (\<exists>rest. out (snd (AnacondaMixin_conda_install h self [''conda-build''] w))
           = out w @ Call ([args_for self ''conda'', ''install'', ''-y''] @ [''conda-build'']) my_env # rest)
        \<and> ''--download-only'' \<notin> set ([args_for self ''conda'', ''install'', ''-y''] @ [''conda-build''])
        \<and> (\<exists>rest. out (snd (conda_install h self specs w))
           = out w @ Call ([args_for self ''conda'', ''install'', ''-y'', ''--download-only''] @ specs) my_env # rest))"
proof -
  have "index_offline_channel h self w
     = conda_index h self (output_conda_offline_channel self)
         (snd (AnacondaMixin_conda_install h self [''conda-build''] w))"
    by (simp add: index_offline_channel_def then_io_def bind_io_def try_pass_def)
  moreover have "pkg_manager_env h self = Inr my_env \<Longrightarrow>
        (\<exists>rest. out (snd (AnacondaMixin_conda_install h self [''conda-build''] w))
           = out w @ Call ([args_for self ''conda'', ''install'', ''-y''] @ [''conda-build'']) my_env # rest)"
    using run_pkg_manager_first_call [of h self my_env "''conda''" "[''install'', ''-y'']" "[''conda-build'']" w]
    by (simp add: AnacondaMixin_conda_install_def pkg_manager_args_def)
  moreover have "pkg_manager_env h self = Inr my_env \<Longrightarrow>
        (\<exists>rest. out (snd (conda_install h self specs w))
           = out w @ Call ([args_for self ''conda'', ''install'', ''-y'', ''--download-only''] @ specs) my_env # rest)"
    using run_pkg_manager_first_call [of h self my_env "''conda''" "[''install'', ''-y'', ''--download-only'']" specs w]
    by (simp add: conda_install_def pkg_manager_args_def)
  ultimately show ?thesis using args_for_not_option [of self "''conda''"] by auto
qed

theorem index_offline_channel_swallows_witness:
  "pkg_manager_env example_host (class_attributes ''Linux'' ''linux'')
     = Inr [(''PATH'', ''/usr/bin''), (''CONDARC'', ''/repo/condarc-for-offline-installer-creation'')]
   \<and> fst (AnacondaMixin_conda_install example_host (class_attributes ''Linux'' ''linux'') [''conda-build''] empty_world)
       = Inl (RuntimeError ''Could not install conda-build with conda'')
   \<and> fst (index_offline_channel example_host (class_attributes ''Linux'' ''linux'') empty_world) = Inr ()
   \<and> (\<exists>rest. out (snd (conda_install example_host (class_attributes ''Linux'' ''linux'') [''six''] empty_world))
           = out empty_world @ Call ([args_for (class_attributes ''Linux'' ''linux'') ''conda'', ''install'', ''-y'', ''--download-only''] @ [''six''])
               [(''PATH'', ''/usr/bin''), (''CONDARC'', ''/repo/condarc-for-offline-installer-creation'')] # rest)"
proof -
  have e: "pkg_manager_env example_host (class_attributes ''Linux'' ''linux'')
     = Inr [(''PATH'', ''/usr/bin''), (''CONDARC'', ''/repo/condarc-for-offline-installer-creation'')]"
    by code_simp
  have f: "fst (AnacondaMixin_conda_install example_host (class_attributes ''Linux'' ''linux'') [''conda-build''] empty_world)
       = Inl (RuntimeError ''Could not install conda-build with conda'')"
    by code_simp
  have g: "fst (conda_index example_host (class_attributes ''Linux'' ''linux'')
              (output_conda_offline_channel (class_attributes ''Linux'' ''linux''))
              (snd (AnacondaMixin_conda_install example_host (class_attributes ''Linux'' ''linux'') [''conda-build''] empty_world))) = Inr ()"
    by code_simp
  show ?thesis
    using index_offline_channel_swallows [of example_host "class_attributes ''Linux'' ''linux''" empty_world
        "[(''PATH'', ''/usr/bin''), (''CONDARC'', ''/repo/condarc-for-offline-installer-creation'')]" "[''six'']"]
      e f g by simp
qed


section \<open>The copy step\<close>

text \<open>
  Claim C10: package\_name is partial. For a file name with no hyphen that a digit follows
  the regular expression does not match and package\_name raises (AttributeError, from
  \<^verbatim>\<open>None.group\<close>); and the copy step raises whenever the package cache holds an archive with
  such a name: an entry of \<^verbatim>\<open>build_temp/pkgs\<close> that the glob patterns \<^verbatim>\<open>*.bz2\<close> or
  \<^verbatim>\<open>*.conda\<close> find.
\<close>

theorem package_name_partial:
  assumes "\<forall>i. Suc i < length fn \<longrightarrow> \<not> (fn ! i = CHR ''-'' \<and> is_digit (fn ! Suc i))"
  shows "package_name fn = Inl AttributeError \<and>
     (MinicondaOfflineInstaller sys plat = Inr self \<and>
      lookup (fs (mach w)) (build_install_dir @ [''pkgs'']) = Some (Dir es) \<and>
      fn \<in> fst ` set es \<and> \<not> ishidden fn \<and>
      (suffix ''.bz2'' (normcase (IS_WINDOWS self) fn) \<or> suffix ''.conda'' (normcase (IS_WINDOWS self) fn))
      \<longrightarrow> isl (fst (copy_packages self w)))"
  using package_name_no_match [OF assms] copy_aborts [of sys plat self w es fn AttributeError]
  by blast

theorem package_name_partial_witness:
  "package_name ''setuptools.tar.bz2'' = Inl AttributeError
   \<and> isl (fst (copy_packages linux_installer
        (cache_world [(''six-1.12.0-py37_0.tar.bz2'', File ''six''), (''setuptools.tar.bz2'', File ''st'')])))"
proof -
  let ?es = "[(''six-1.12.0-py37_0.tar.bz2'', File ''six''), (''setuptools.tar.bz2'', File ''st'')]"
  have "CHR ''-'' \<notin> set ''setuptools.tar.bz2''" by simp
  then have h: "\<forall>i. Suc i < length ''setuptools.tar.bz2'' \<longrightarrow>
      \<not> (''setuptools.tar.bz2'' ! i = CHR ''-'' \<and> is_digit (''setuptools.tar.bz2'' ! Suc i))"
    by (metis Suc_lessD nth_mem)
  have d: "lookup (fs (mach (cache_world ?es))) (build_install_dir @ [''pkgs'']) = Some (Dir ?es)"
    by (simp add: cache_world_def build_install_dir_def)
  have s: "suffix ''.bz2'' (normcase (IS_WINDOWS linux_installer) ''setuptools.tar.bz2'')"
    by code_simp
  have nh: "\<not> ishidden ''setuptools.tar.bz2''" by (simp add: ishidden_def)
  have m: "''setuptools.tar.bz2'' \<in> fst ` set ?es" by simp
  show ?thesis
    using package_name_partial [OF h, of "''Linux''" "''linux''" linux_installer "cache_world ?es" ?es]
      linux_installer_constructed d s nh m
    by blast
qed

text \<open>
  Claim C2, as stated: copy\_packages copies every archive of the package cache,
  unconditionally. It extracts the package name of each file before it copies the file, so
  an archive whose name has no hyphen followed by a digit stops the loop: here that archive
  is listed first, the step raises, and the well-named archive after it is not copied (the
  destination directory stays empty).
\<close>

theorem copy_packages_not_unconditional:
  "lookup (fs (mach (cache_world [(''setuptools.tar.bz2'', File ''st''), (''six-1.12.0-py37_0.tar.bz2'', File ''six'')])))
      [''build_temp'', ''pkgs'', ''six-1.12.0-py37_0.tar.bz2''] = Some (File ''six'')
   \<and> fst (copy_packages linux_installer
          (cache_world [(''setuptools.tar.bz2'', File ''st''), (''six-1.12.0-py37_0.tar.bz2'', File ''six'')]))
       = Inl AttributeError
   \<and> lookup (fs (mach (snd (copy_packages linux_installer
          (cache_world [(''setuptools.tar.bz2'', File ''st''), (''six-1.12.0-py37_0.tar.bz2'', File ''six'')])))))
        (conda_package_dest linux_installer) = Some (Dir [])"
  by code_simp

text \<open>
  Claim C2, amended: whenever copy\_packages returns, every entry of \<^verbatim>\<open>build_temp/pkgs\<close> that
  the patterns \<^verbatim>\<open>*.bz2\<close> and \<^verbatim>\<open>*.conda\<close> find (its name does not start with a dot and has one
  of the two extensions, compared through \<^verbatim>\<open>normcase\<close>) is a file and is in the directory of
  the output channel that is named after the platform and architecture, under the same name
  and with the same content. The set of seen package names has no effect: from any two sets
  the loop ends in the same state, and raises the same error or returns in both.
\<close>

theorem copy_packages_copies_all:
  assumes "MinicondaOfflineInstaller sys plat = Inr self"
    and "copy_packages self w = (Inr (), w')"
    and "lookup (fs (mach w)) (build_install_dir @ [''pkgs'']) = Some (Dir es)"
  shows "(\<forall>fn\<in>fst ` set es.
            \<not> ishidden fn \<and>
            (suffix ''.bz2'' (normcase (IS_WINDOWS self) fn) \<or> suffix ''.conda'' (normcase (IS_WINDOWS self) fn))
            \<longrightarrow> (\<exists>c. lookup (fs (mach w)) (build_install_dir @ [''pkgs'', fn]) = Some (File c)
                      \<and> lookup (fs (mach w')) (conda_package_dest self @ [fn]) = Some (File c)))
       \<and> (\<forall>files known known' v.
            snd (copy_each (conda_package_dest self) files known v)
              = snd (copy_each (conda_package_dest self) files known' v) \<and>
            map_sum id (\<lambda>known. ()) (fst (copy_each (conda_package_dest self) files known v))
              = map_sum id (\<lambda>known. ()) (fst (copy_each (conda_package_dest self) files known' v)))"
  using copy_packages_copies [OF assms] copy_each_known_irrelevant by blast

theorem copy_packages_copies_all_witness:
  "MinicondaOfflineInstaller ''Linux'' ''linux'' = Inr linux_installer
   \<and> fst (copy_packages linux_installer
          (cache_world [(''six-1.12.0-py37_0.tar.bz2'', File ''six''), (''pytz-2019.3-py_0.conda'', File ''pytz'')]))
       = Inr ()
   \<and> lookup (fs (mach (snd (copy_packages linux_installer
          (cache_world [(''six-1.12.0-py37_0.tar.bz2'', File ''six''), (''pytz-2019.3-py_0.conda'', File ''pytz'')])))))
        (conda_package_dest linux_installer @ [''pytz-2019.3-py_0.conda'']) = Some (File ''pytz'')"
proof -
  let ?es = "[(''six-1.12.0-py37_0.tar.bz2'', File ''six''), (''pytz-2019.3-py_0.conda'', File ''pytz'')]"
  have f: "fst (copy_packages linux_installer (cache_world ?es)) = Inr ()"
    by code_simp
  then have r: "copy_packages linux_installer (cache_world ?es)
      = (Inr (), snd (copy_packages linux_installer (cache_world ?es)))"
    by (metis prod.collapse)
  have d: "lookup (fs (mach (cache_world ?es))) (build_install_dir @ [''pkgs'']) = Some (Dir ?es)"
    by (simp add: cache_world_def build_install_dir_def)
  have s: "suffix ''.conda'' (normcase (IS_WINDOWS linux_installer) ''pytz-2019.3-py_0.conda'')"
    by code_simp
  have nh: "\<not> ishidden ''pytz-2019.3-py_0.conda''" by (simp add: ishidden_def)
  have m: "''pytz-2019.3-py_0.conda'' \<in> fst ` set ?es" by simp
  have src: "lookup (fs (mach (cache_world ?es))) (build_install_dir @ [''pkgs'', ''pytz-2019.3-py_0.conda''])
      = Some (File ''pytz'')"
    by (simp add: cache_world_def build_install_dir_def)
  from copy_packages_copies_all [OF linux_installer_constructed r d] m s nh
  obtain c where
    "lookup (fs (mach (cache_world ?es))) (build_install_dir @ [''pkgs'', ''pytz-2019.3-py_0.conda'']) = Some (File c)"
    "lookup (fs (mach (snd (copy_packages linux_installer (cache_world ?es)))))
        (conda_package_dest linux_installer @ [''pytz-2019.3-py_0.conda'']) = Some (File c)"
    by blast
  with src f linux_installer_constructed show ?thesis by simp
qed


section \<open>PATH clean-up\<close>




section \<open>The install script\<close>

text \<open>
  Claim C5: for the installer object of any of the three systems and any list of packages,
  the rendered script contains the installer file name and the packages joined by single
  spaces in their order; write\_install\_script writes the script rendered for the base
  packages into the install script of the output directory; and off Windows, with the
  packages \<^verbatim>\<open>['Pillow', 'six']\<close>, exactly one line of the script starts with
  \<^verbatim>\<open>conda install\<close>, and it ends with \<^verbatim>\<open>Pillow six\<close>.
\<close>

theorem install_script_text:
  assumes "MinicondaOfflineInstaller sys plat = Inr self"
  shows "\<exists>n. installer_name self = Inr n \<and> snd (split_path (output_installer self)) = n
       \<and> sublist n (render_install_script self n pkgs)
       \<and> sublist (join '' '' pkgs) (render_install_script self n pkgs)
       \<and> (\<forall>w w'. write_install_script self w = (Inr (), w') \<longrightarrow>
             (\<exists>p. install_name self = Inr p \<and>
                  lookup (fs (mach w')) p = Some (File (render_install_script self n base_conda_packages))))
       \<and> (plat \<noteq> ''win32'' \<longrightarrow>
             (\<exists>l. filter (prefix ''conda install'')
                       (split_on newline (render_install_script self n [''Pillow'', ''six''])) = [l]
                  \<and> suffix ''Pillow six'' l))"
proof -
  from constructed_installer_name [OF assms] obtain n where
    n: "installer_name self = Inr n" "output_installer self = output_dir self @ [n]"
    and names: "n \<in> {''Miniconda3-4.7.12.1-Windows-x86_64.exe'', ''Miniconda3-4.7.12.1-Linux-x86_64.sh'',
                 ''Miniconda3-4.7.12.1-MacOSX-x86_64.sh''}"
    by blast
  have clean: "CHR ''{'' \<notin> set n" "newline \<notin> set n"
    using names by (auto simp: newline_def)
  have plat: "sys_platform self = plat" by (rule constructed_fields(3) [OF assms])
  have exe: "snd (split_path (output_installer self)) = n"
    by (simp add: n(2) split_path_def)
  have sub_n: "sublist n (render_install_script self n pkgs)"
  proof (cases "plat = ''win32''")
    case True
    then have pw: "sys_platform self = ''win32''" using plat by simp
    have \<open>sublist n (''start /wait "" "%installer_dir%'' @ n @ ''" /AddToPath=0 /S /D=%~s1'')\<close>
      by (rule sublist_appendI)
    then show ?thesis
      unfolding render_windows [OF clean(1) pw]
      by (rule sublist_text_lines [rotated]) simp
  next
    case False
    then have pu: "sys_platform self \<noteq> ''win32''" using plat by simp
    have \<open>sublist n (''chmod +x $INSTALLER_DIR/'' @ n)\<close>
      by (rule sublist_append_leftI)
    then show ?thesis
      unfolding render_unix [OF clean(1) pu]
      by (rule sublist_text_lines [rotated]) simp
  qed
  have sub_p: "sublist (join '' '' pkgs) (render_install_script self n pkgs)"
  proof (cases "plat = ''win32''")
    case True
    then have pw: "sys_platform self = ''win32''" using plat by simp
    have \<open>sublist (join '' '' pkgs) (''call conda install -y --channel "%installer_dir%conda_offline_channel" --offline --override-channels '' @ join '' '' pkgs)\<close>
      by (rule sublist_append_leftI)
    then show ?thesis
      unfolding render_windows [OF clean(1) pw]
      by (rule sublist_text_lines [rotated]) simp
  next
    case False
    then have pu: "sys_platform self \<noteq> ''win32''" using plat by simp
    have \<open>sublist (join '' '' pkgs) (''conda install -y --channel "$INSTALLER_DIR/conda_offline_channel" --offline --override-channels '' @ join '' '' pkgs)\<close>
      by (rule sublist_append_leftI)
    then show ?thesis
      unfolding render_unix [OF clean(1) pu]
      by (rule sublist_text_lines [rotated]) simp
  qed
  have wr: "\<forall>w w'. write_install_script self w = (Inr (), w') \<longrightarrow>
             (\<exists>p. install_name self = Inr p \<and>
                  lookup (fs (mach w')) p = Some (File (render_install_script self n base_conda_packages)))"
    using write_install_script_Inr [of self] exe by auto
  have line: "plat \<noteq> ''win32'' \<longrightarrow>
             (\<exists>l. filter (prefix ''conda install'')
                       (split_on newline (render_install_script self n [''Pillow'', ''six''])) = [l]
                  \<and> suffix ''Pillow six'' l)"
  proof
    assume "plat \<noteq> ''win32''"
    then have p: "sys_platform self \<noteq> ''win32''" using plat by simp
    have \<open>suffix ''Pillow six''
      ''conda install -y --channel "$INSTALLER_DIR/conda_offline_channel" --offline --override-channels Pillow six''\<close>
      by (simp add: suffix_def)
    then show "\<exists>l. filter (prefix ''conda install'')
                       (split_on newline (render_install_script self n [''Pillow'', ''six''])) = [l]
                  \<and> suffix ''Pillow six'' l"
      unfolding unix_conda_line [OF clean p] by blast
  qed
  from n(1) exe sub_n sub_p wr line show ?thesis by blast
qed

theorem install_script_text_witness:
  \<open>MinicondaOfflineInstaller ''Linux'' ''linux'' = Inr linux_installer
   \<and> sublist ''Miniconda3-4.7.12.1-Linux-x86_64.sh''
        (render_install_script linux_installer ''Miniconda3-4.7.12.1-Linux-x86_64.sh'' base_conda_packages)
   \<and> sublist ''Pillow six lxml numpy matplotlib pytest docxtpl pockets docutils pygments sphinx pandas py-xgboost''
        (render_install_script linux_installer ''Miniconda3-4.7.12.1-Linux-x86_64.sh'' base_conda_packages)
   \<and> fst (write_install_script linux_installer (cache_world [])) = Inr ()
   \<and> lookup (fs (mach (snd (write_install_script linux_installer (cache_world [])))))
         [''output'', ''miniconda3-4.7.12.1-2'', ''install.sh'']
       = Some (File (render_install_script linux_installer ''Miniconda3-4.7.12.1-Linux-x86_64.sh''
                       base_conda_packages))
   \<and> (\<exists>l. filter (prefix ''conda install'')
             (split_on newline (render_install_script linux_installer ''Miniconda3-4.7.12.1-Linux-x86_64.sh''
                                  [''Pillow'', ''six''])) = [l]
          \<and> suffix ''Pillow six'' l)\<close>
proof -
  have nm: "installer_name linux_installer = Inr ''Miniconda3-4.7.12.1-Linux-x86_64.sh''"
    by code_simp
  have j: "join '' '' base_conda_packages
      = ''Pillow six lxml numpy matplotlib pytest docxtpl pockets docutils pygments sphinx pandas py-xgboost''"
    by code_simp
  have ip: "install_name linux_installer = Inr [''output'', ''miniconda3-4.7.12.1-2'', ''install.sh'']"
    by code_simp
  have ok: "fst (write_install_script linux_installer (cache_world [])) = Inr ()"
    by (rule write_install_script_succeeds [OF ip]) (simp_all add: cache_world_def)
  then have r: "write_install_script linux_installer (cache_world [])
      = (Inr (), snd (write_install_script linux_installer (cache_world [])))"
    by (metis prod.collapse)
  have ne: "''linux'' \<noteq> ''win32''" by simp
  from install_script_text [OF linux_installer_constructed, of base_conda_packages]
  have a: "sublist ''Miniconda3-4.7.12.1-Linux-x86_64.sh''
        (render_install_script linux_installer ''Miniconda3-4.7.12.1-Linux-x86_64.sh'' base_conda_packages)"
    and b: "sublist (join '' '' base_conda_packages)
        (render_install_script linux_installer ''Miniconda3-4.7.12.1-Linux-x86_64.sh'' base_conda_packages)"
    and c: "lookup (fs (mach (snd (write_install_script linux_installer (cache_world [])))))
         [''output'', ''miniconda3-4.7.12.1-2'', ''install.sh'']
       = Some (File (render_install_script linux_installer ''Miniconda3-4.7.12.1-Linux-x86_64.sh''
                       base_conda_packages))"
    and d: "\<exists>l. filter (prefix ''conda install'')
             (split_on newline (render_install_script linux_installer ''Miniconda3-4.7.12.1-Linux-x86_64.sh''
                                  [''Pillow'', ''six''])) = [l]
          \<and> suffix ''Pillow six'' l"
    using nm ip r ne by auto
  from linux_installer_constructed a b [unfolded j] ok c d show ?thesis by blast
qed


end
